theory Spec2Isabelle
  imports Main "HOL-Library.Monad_Syntax" "HOL-Library.Word"
begin

section \<open>The program\<close>

subsection \<open>Matrix chunking: \<open>slice_matrix\<close> (routeup/data/client/utils.py)\<close>

text \<open>
  A returned rectangle is the dictionary with the keys \<open>start_row\<close>, \<open>end_row\<close>,
  \<open>start_col\<close>, \<open>end_col\<close>. Python integers are unbounded, so every index is an \<open>int\<close>;
  \<open>//\<close> is floor division, which is \<open>div\<close> on \<open>int\<close>. The recursion of the source
  does not terminate on every input, so \<open>slice_matrix\<close> is a partial function whose
  value \<open>None\<close> stands for a recursion that never returns.
\<close>

record rect =
  start_row :: int
  end_row :: int
  start_col :: int
  end_col :: int

partial_function (option) slice_matrix :: "int \<Rightarrow> int \<Rightarrow> int \<Rightarrow> int \<Rightarrow> int \<Rightarrow> rect list option" where
  "slice_matrix srow erow scol ecol max_elements =
     (let dimension_1 = erow - srow; dimension_2 = ecol - scol in
      if dimension_1 * dimension_2 \<le> max_elements then
        Some [\<lparr>start_row = srow, end_row = erow, start_col = scol, end_col = ecol\<rparr>]
      else
        let max_length = max dimension_1 dimension_2;
            new_length = max_length div 2 in
        if dimension_1 = max_length then
          do {
            top \<leftarrow> slice_matrix srow (srow + new_length) scol ecol max_elements;
            down \<leftarrow> slice_matrix (srow + new_length) erow scol ecol max_elements;
            Some (top @ down)
          }
        else
          do {
            left \<leftarrow> slice_matrix srow erow scol (scol + new_length) max_elements;
            right \<leftarrow> slice_matrix srow erow (scol + new_length) ecol max_elements;
            Some (left @ right)
          })"

declare slice_matrix.simps [code]

subsection \<open>Route chunking: \<open>GoogleMaps.get_route\<close> (routeup/data/client/gmaps.py)\<close>

text \<open>
  Exceptions are values: a function that can raise returns \<open>error + 'a\<close>, with \<open>Inl\<close> the
  exception raised.
\<close>

datatype error =
    IndexError
  | ValueError
  | OverflowError
  | InvalidRequestFormat string
  | InvalidResponseFormat string

text \<open>Python's \<open>str\<close> of an integer, as used by the f-strings of the messages.\<close>

fun str_nat :: "nat \<Rightarrow> string" where
  "str_nat n =
     (if n < 10 then [''0123456789'' ! n]
      else str_nat (n div 10) @ [''0123456789'' ! (n mod 10)])"

declare str_nat.simps [simp del]

definition str_int :: "int \<Rightarrow> string" where
  "str_int i = (if i < 0 then ''-'' @ str_nat (nat (- i)) else str_nat (nat i))"

text \<open>
  A slice \<open>xs[i:j]\<close>: a negative index counts from the end, and both indices are clipped
  to the list.
\<close>

definition py_slice :: "'a list \<Rightarrow> int \<Rightarrow> int \<Rightarrow> 'a list" where
  "py_slice xs i j =
     (let n = int (length xs);
          lo = (if i < 0 then max (i + n) 0 else min i n);
          hi = (if j < 0 then max (j + n) 0 else min j n)
      in take (nat (hi - lo)) (drop (nat lo) xs))"

text \<open>
  The keyword arguments of \<open>client.directions\<close>. The key \<open>mode\<close> of the source is the field
  \<open>travel_mode\<close>; a request without way points has \<open>waypoints = None\<close>.
\<close>

record 'a request =
  origin :: 'a
  destination :: 'a
  waypoints :: "'a list option"
  travel_mode :: string

record ('c, 't) CartographyRoute =
  coordinates :: "'c list"
  times :: "'t list"
  distances :: "'t list"

text \<open>
  \<open>_prepare_stops\<close> turns each coordinate into the dictionary of its latitude and
  longitude; the stops are kept abstract, so it maps each stop to itself.
\<close>

definition prepare_stops :: "'a list \<Rightarrow> 'a list" where
  "prepare_stops stops = map (\<lambda>stop. stop) stops"

definition prepare_request_route :: "int \<Rightarrow> 'a list \<Rightarrow> string \<Rightarrow> error + 'a request" where
  "prepare_request_route max_route_stops stops costing =
     (let stops_input = prepare_stops stops in
      if length stops_input < 2 then
        Inl (InvalidRequestFormat ''At least two stops are required'')
      else if length stops_input < 3 then
        Inr \<lparr>origin = stops_input ! 0, destination = stops_input ! 1,
             waypoints = None, travel_mode = costing\<rparr>
      else if length stops_input \<ge> 3 \<and> int (length stops_input) \<le> max_route_stops then
        Inr \<lparr>origin = stops_input ! 0, destination = last stops_input,
             waypoints = Some (butlast (tl stops_input)), travel_mode = costing\<rparr>
      else
        Inl (InvalidRequestFormat (''Maximum number of stops is '' @ str_int max_route_stops)))"

definition combine_routes :: "('c, 't) CartographyRoute list \<Rightarrow> ('c, 't) CartographyRoute" where
  "combine_routes routes =
     \<lparr>coordinates = concat (map coordinates routes),
      times = concat (map times routes),
      distances = concat (map distances routes)\<rparr>"

text \<open>
  The loop of \<open>get_route\<close>. The routing API together with \<open>_parse_route_response\<close> is the
  parameter \<open>directions\<close>; \<open>sent\<close> is the list of the requests sent to the API so far,
  which is returned with the outcome, also when the outcome is an exception.
\<close>

lemma case_sum_mono [partial_function_mono]:
  assumes "\<And>x. mono_option (\<lambda>f. g f x)" and "\<And>y. mono_option (\<lambda>f. h f y)"
  shows "mono_option (\<lambda>f. case s of Inl x \<Rightarrow> g f x | Inr y \<Rightarrow> h f y)"
  using assms by (cases s) simp_all

partial_function (option) get_route_loop ::
  "int \<Rightarrow> ('a request \<Rightarrow> error + ('c, 't) CartographyRoute) \<Rightarrow> 'a list \<Rightarrow> string \<Rightarrow>
   int \<Rightarrow> int \<Rightarrow> 'a request list \<Rightarrow> ('c, 't) CartographyRoute list \<Rightarrow>
   ('a request list \<times> (error + ('c, 't) CartographyRoute list)) option" where
  "get_route_loop max_route_stops directions stops costing start_idx end_idx sent routes =
     (if end_idx \<le> int (length stops) \<and> start_idx < int (length stops) - 1 then
        (case prepare_request_route max_route_stops (py_slice stops start_idx end_idx) costing of
           Inl e \<Rightarrow> Some (sent, Inl e)
         | Inr request \<Rightarrow>
             (case directions request of
                Inl e \<Rightarrow> Some (sent @ [request], Inl e)
              | Inr route \<Rightarrow>
                  get_route_loop max_route_stops directions stops costing
                    (end_idx - 1) (min (end_idx + max_route_stops) (int (length stops)))
                    (sent @ [request]) (routes @ [route])))
      else Some (sent, Inr routes))"

declare get_route_loop.simps [code]

definition get_route ::
  "int \<Rightarrow> ('a request \<Rightarrow> error + ('c, 't) CartographyRoute) \<Rightarrow> 'a list \<Rightarrow> string option \<Rightarrow>
   ('a request list \<times> (error + ('c, 't) CartographyRoute)) option" where
  "get_route max_route_stops directions stops costing =
     (let costing = (case costing of None \<Rightarrow> ''driving'' | Some c \<Rightarrow> c);
          start_idx = 0;
          end_idx = min (int (length stops)) max_route_stops
      in case get_route_loop max_route_stops directions stops costing start_idx end_idx [] [] of
           None \<Rightarrow> None
         | Some (sent, Inl e) \<Rightarrow> Some (sent, Inl e)
         | Some (sent, Inr routes) \<Rightarrow> Some (sent, Inr (combine_routes routes)))"

subsection \<open>The route optimizer: data (routeup/ml/route\_optimizer.py)\<close>

datatype RouteMode = INBOUND | OUTBOUND

record Fleet =
  number_of_vehicles :: int
  capacity :: int

text \<open>
  The time matrix is a numpy array, an object that is shared and mutated in place. The
  heap of such arrays is the \<open>store\<close> of the \<open>world\<close>: a reference is an index into it.
  \<open>solver_calls\<close> counts the invocations of \<open>SolveWithParameters\<close>. The matrix of the
  caller holds integers that fit in 64 bits, of which \<open>np.array\<close> makes an array of dtype
  int64: an entry is a 64-bit word, read as a signed integer by \<open>sint\<close>, and \<open>fits_int64\<close>
  holds of the Python integers that convert to an entry.
\<close>

type_synonym matrix = "64 word list list"

definition fits_int64 :: "int \<Rightarrow> bool" where
  "fits_int64 v \<longleftrightarrow> - (2 ^ 63) \<le> v \<and> v < 2 ^ 63"

record world =
  store :: "matrix list"
  solver_calls :: nat

text \<open>
  The fields of \<open>RouteOptimizerInput\<close> as \<open>__init__\<close> reads them; \<open>inp_time_matrix\<close> is the
  reference to the matrix object of the caller.
\<close>

record RouteOptimizerInput =
  inp_mode :: RouteMode
  inp_time_matrix :: nat
  inp_fleet :: "Fleet list"
  inp_demands :: "int list"
  inp_max_travel_time :: int
  inp_slack_time :: int

text \<open>The dictionary built by \<open>_create_data_model\<close>; its time matrix is a reference.\<close>

record data_model =
  d_time_matrix :: nat
  d_demands :: "int list"
  d_vehicle_capacities :: "int list"
  d_num_vehicles :: nat
  d_depot :: nat
  d_max_travel_time :: int

text \<open>
  The objects of OR-Tools are kept as what the source passes to them. A routing model holds
  what \<open>_set_routing\<close> registers: the data and the slack time captured by the callbacks,
  the fixed cost of every vehicle and the two dimensions. \<open>r_solved\<close> records whether
  \<open>SolveWithParameters\<close> was invoked on the object.
\<close>

record RoutingIndexManager =
  m_num_nodes :: nat
  m_num_vehicles :: nat
  m_depot :: nat

record RoutingModel =
  r_manager :: RoutingIndexManager
  r_data :: data_model
  r_slack_time :: int
  r_fixed_cost :: int
  r_capacity_dimension :: "int list"
  r_time_dimension :: int
  r_solved :: bool

text \<open>
  The attributes of a \<open>RouteOptimizer\<close>: those copied from the input, on which
  \<open>_create_data_model\<close> works, and \<open>data\<close>, \<open>manager\<close> and \<open>routing\<close>.
\<close>

record RouteOptimizer_attrs =
  mode :: RouteMode
  time_matrix :: nat
  fleet :: "Fleet list"
  demands :: "int list"
  max_travel_time :: int
  slack_time :: int
  vehicle_penalty :: int

record RouteOptimizer = RouteOptimizer_attrs +
  data :: data_model
  manager :: RoutingIndexManager
  routing :: RoutingModel

datatype FirstSolutionStrategy = AUTOMATIC_STRATEGY | PATH_CHEAPEST_ARC

datatype LocalSearchMetaheuristic = AUTOMATIC_METAHEURISTIC | GUIDED_LOCAL_SEARCH

record search_parameters =
  first_solution_strategy :: FirstSolutionStrategy
  local_search_metaheuristic :: LocalSearchMetaheuristic
  time_limit_seconds :: "int option"

text \<open>
  The solver is external: its operations are the fields of a parameter, with \<open>'s\<close> the
  type of its solutions. The callbacks read the time matrix, so the operations that
  evaluate arc costs take its current contents. \<open>grid_search_time_limit\<close> is the
  configured time limit.
\<close>

record 's ortools =
  IndexToNode :: "RoutingIndexManager \<Rightarrow> int \<Rightarrow> nat"
  Start :: "RoutingModel \<Rightarrow> nat \<Rightarrow> int"
  IsEnd :: "RoutingModel \<Rightarrow> int \<Rightarrow> bool"
  GetArcCostForVehicle :: "matrix \<Rightarrow> RoutingModel \<Rightarrow> int \<Rightarrow> int \<Rightarrow> nat \<Rightarrow> int"
  SolveWithParameters :: "matrix \<Rightarrow> RoutingModel \<Rightarrow> search_parameters \<Rightarrow> 's option"
  Min_CumulVar_Time :: "'s \<Rightarrow> int \<Rightarrow> int"
  Value_NextVar :: "'s \<Rightarrow> int \<Rightarrow> int"
  grid_search_time_limit :: int

text \<open>
  The output schemas, by the keyword arguments of their constructors in the source; a
  \<open>RouteStop\<close> built without \<open>vehicle_occupancy\<close> has \<open>None\<close> there.
\<close>

record RouteStop =
  stop_id :: nat
  stop_demand :: int
  vehicle_occupancy :: "int option"
  travel_time :: int

record Route =
  vehicle_capacity :: int
  vehicle_travel_occupancy :: int
  vehicle_travel_time :: int
  route_stops :: "RouteStop list"

record RouteOptimizerOutput =
  out_max_travel_time :: int
  out_routes :: "Route list"
  out_slack_time :: int

record GridSearchOutput =
  gs_extra_time :: int
  gs_extra_vehicles :: Fleet
  gs_message :: string

subsection \<open>The route optimizer: model construction\<close>

text \<open>
  \<open>np.array\<close> makes a new array with the contents of its argument; rows of different
  lengths are refused.
\<close>

definition np_array :: "world \<Rightarrow> nat \<Rightarrow> error + (world \<times> nat)" where
  "np_array w src =
     (let m = store w ! src in
      if \<exists>row \<in> set m. length row \<noteq> length (hd m) then Inl ValueError
      else Inr (w\<lparr>store := store w @ [m]\<rparr>, length (store w)))"

text \<open>
  The assignments \<open>time_matrix[0, :] = v\<close> and \<open>time_matrix[:, 0] = v\<close>; the index 0 is
  out of range when the axis is empty, and a Python integer that does not fit in 64 bits
  is not converted to an entry.
\<close>

definition assign_row0 :: "matrix \<Rightarrow> int \<Rightarrow> error + matrix" where
  "assign_row0 m v =
     (case m of
        [] \<Rightarrow> Inl IndexError
      | row # rows \<Rightarrow>
          if \<not> fits_int64 v then Inl OverflowError
          else Inr (map (\<lambda>_. word_of_int v) row # rows))"

definition assign_col0 :: "matrix \<Rightarrow> int \<Rightarrow> error + matrix" where
  "assign_col0 m v =
     (if m = [] \<or> hd m = [] then Inl IndexError
      else if \<not> fits_int64 v then Inl OverflowError
      else Inr (map (\<lambda>row. word_of_int v # tl row) m))"

text \<open>Python's \<open>max\<close> of a list, which raises on the empty list.\<close>

definition py_max :: "int list \<Rightarrow> error + int" where
  "py_max xs = (case xs of [] \<Rightarrow> Inl ValueError | x # ys \<Rightarrow> Inr (fold max ys x))"

definition expand_fleet :: "Fleet list \<Rightarrow> int list" where
  "expand_fleet fl =
     concat (map (\<lambda>item. replicate (nat (number_of_vehicles item)) (capacity item)) fl)"

text \<open>
  \<open>_create_data_model\<close> assigns into the array \<open>self.time_matrix\<close> refers to and returns
  the dictionary. An exception ends the call: it is returned without the state.
\<close>

definition create_data_model ::
  "world \<Rightarrow> 'a RouteOptimizer_attrs_scheme \<Rightarrow> int \<Rightarrow> int \<Rightarrow> error + (world \<times> data_model)" where
  "create_data_model w self extra_vehicles extra_max_travel_time =
     (let tm = time_matrix self in
      case (if mode self = INBOUND then assign_row0 (store w ! tm) (- slack_time self)
            else assign_col0 (store w ! tm) (- slack_time self)) of
        Inl e \<Rightarrow> Inl e
      | Inr adjusted \<Rightarrow>
          let w' = w\<lparr>store := (store w)[tm := adjusted]\<rparr>;
              vehicle_capacities = expand_fleet (fleet self)
          in case py_max vehicle_capacities of
               Inl e \<Rightarrow> Inl e
             | Inr max_capacity \<Rightarrow>
                 let vehicle_capacities =
                       vehicle_capacities @ replicate (nat extra_vehicles) max_capacity
                 in Inr (w', \<lparr>d_time_matrix = time_matrix self,
                              d_demands = demands self,
                              d_vehicle_capacities = vehicle_capacities,
                              d_num_vehicles = length vehicle_capacities,
                              d_depot = 0,
                              d_max_travel_time = max_travel_time self + extra_max_travel_time\<rparr>))"

text \<open>
  \<open>_set_manager\<close> and \<open>_set_routing\<close> read \<open>self.data\<close> and \<open>self.manager\<close>, which are
  their arguments here. The two callbacks that \<open>_set_routing\<close> registers follow; a routing
  model is always built together with the manager its callbacks use. The sum of an entry
  and the slack time is an int64 sum: a slack time that does not fit in 64 bits is not
  converted, and the sum wraps around.
\<close>

definition set_manager :: "world \<Rightarrow> data_model \<Rightarrow> RoutingIndexManager" where
  "set_manager w dm =
     \<lparr>m_num_nodes = length (store w ! d_time_matrix dm),
      m_num_vehicles = d_num_vehicles dm,
      m_depot = d_depot dm\<rparr>"

definition set_routing :: "RoutingIndexManager \<Rightarrow> data_model \<Rightarrow> int \<Rightarrow> int \<Rightarrow> RoutingModel" where
  "set_routing mgr dm penalty slack =
     \<lparr>r_manager = mgr,
      r_data = dm,
      r_slack_time = slack,
      r_fixed_cost = penalty,
      r_capacity_dimension = d_vehicle_capacities dm,
      r_time_dimension = d_max_travel_time dm,
      r_solved = False\<rparr>"

definition time_callback ::
  "'s ortools \<Rightarrow> world \<Rightarrow> RoutingModel \<Rightarrow> int \<Rightarrow> int \<Rightarrow> error + int" where
  "time_callback ort w rm from_index to_index =
     (let from_node = IndexToNode ort (r_manager rm) from_index;
          to_node = IndexToNode ort (r_manager rm) to_index;
          tm = store w ! d_time_matrix (r_data rm)
      in if length tm \<le> from_node \<or> length (tm ! from_node) \<le> to_node then Inl IndexError
         else if \<not> fits_int64 (r_slack_time rm) then Inl OverflowError
         else Inr (sint (tm ! from_node ! to_node + word_of_int (r_slack_time rm))))"

definition demand_callback :: "'s ortools \<Rightarrow> RoutingModel \<Rightarrow> int \<Rightarrow> error + int" where
  "demand_callback ort rm from_index =
     (let from_node = IndexToNode ort (r_manager rm) from_index
      in if length (d_demands (r_data rm)) \<le> from_node then Inl IndexError
         else Inr (d_demands (r_data rm) ! from_node))"

text \<open>\<open>__init__\<close>: the optimizer keeps a new array, not the matrix of the input.\<close>

definition init :: "world \<Rightarrow> RouteOptimizerInput \<Rightarrow> int \<Rightarrow> error + (world \<times> RouteOptimizer)" where
  "init w route_optimizer_input penalty =
     (case np_array w (inp_time_matrix route_optimizer_input) of
        Inl e \<Rightarrow> Inl e
      | Inr (w1, tm) \<Rightarrow>
          let self = \<lparr>mode = inp_mode route_optimizer_input,
                      time_matrix = tm,
                      fleet = inp_fleet route_optimizer_input,
                      demands = inp_demands route_optimizer_input,
                      max_travel_time = inp_max_travel_time route_optimizer_input,
                      slack_time = inp_slack_time route_optimizer_input,
                      vehicle_penalty = penalty\<rparr>
          in case create_data_model w1 self 0 0 of
               Inl e \<Rightarrow> Inl e
             | Inr (w2, dm) \<Rightarrow>
                 let mgr = set_manager w2 dm;
                     rm = set_routing mgr dm (vehicle_penalty self) (slack_time self)
                 in Inr (w2, RouteOptimizer_attrs.extend self
                               (RouteOptimizer.fields dm mgr rm)))"

subsection \<open>The route optimizer: grid search\<close>

text \<open>
  \<open>self.routing.SolveWithParameters(search_parameters)\<close>: the solver runs on the routing
  model and on the current contents of its time matrix.
\<close>

definition routing_solve ::
  "'s ortools \<Rightarrow> world \<Rightarrow> RouteOptimizer \<Rightarrow> search_parameters \<Rightarrow>
   world \<times> RouteOptimizer \<times> 's option" where
  "routing_solve ort w self search_parameters =
     (w\<lparr>solver_calls := Suc (solver_calls w)\<rparr>,
      self\<lparr>routing := (routing self)\<lparr>r_solved := True\<rparr>\<rparr>,
      SolveWithParameters ort (store w ! d_time_matrix (r_data (routing self)))
        (routing self) search_parameters)"

definition DefaultRoutingSearchParameters :: search_parameters where
  "DefaultRoutingSearchParameters =
     \<lparr>first_solution_strategy = AUTOMATIC_STRATEGY,
      local_search_metaheuristic = AUTOMATIC_METAHEURISTIC,
      time_limit_seconds = None\<rparr>"

text \<open>
  The three assignments that rebuild \<open>self.data\<close>, \<open>self.manager\<close> and \<open>self.routing\<close> in
  \<open>_grid_search_solver\<close>; \<open>_set_routing\<close> is called there without \<open>slack_time\<close>, so with its
  default 120.
\<close>

definition rebuild_model ::
  "world \<Rightarrow> RouteOptimizer \<Rightarrow> int \<Rightarrow> int \<Rightarrow> error + (world \<times> RouteOptimizer)" where
  "rebuild_model w self extra_vehicles extra_max_travel_time =
     (case create_data_model w self extra_vehicles extra_max_travel_time of
        Inl e \<Rightarrow> Inl e
      | Inr (w', d) \<Rightarrow>
          let self = self\<lparr>data := d\<rparr>;
              self = self\<lparr>manager := set_manager w' (data self)\<rparr>;
              self = self\<lparr>routing := set_routing (manager self) (data self)
                                       (vehicle_penalty self) 120\<rparr>
          in Inr (w', self))"

text \<open>The search parameters of every attempt of the grid search.\<close>

definition grid_search_parameters :: "'s ortools \<Rightarrow> search_parameters" where
  "grid_search_parameters ort =
     DefaultRoutingSearchParameters
       \<lparr>first_solution_strategy := PATH_CHEAPEST_ARC,
        time_limit_seconds := Some (grid_search_time_limit ort)\<rparr>"

text \<open>
  The two loops of \<open>_grid_search_solver\<close>, over the values of \<open>i\<close> that remain; a loop
  returns what it found when it breaks.
\<close>

fun extra_time_loop ::
  "'s ortools \<Rightarrow> int list \<Rightarrow> world \<Rightarrow> RouteOptimizer \<Rightarrow>
   error + (world \<times> RouteOptimizer \<times> (int \<times> string) option)" where
  "extra_time_loop ort [] w self = Inr (w, self, None)"
| "extra_time_loop ort (i # rest) w self =
     (case rebuild_model w self 0 (i * 60) of
        Inl e \<Rightarrow> Inl e
      | Inr (w, self) \<Rightarrow>
          (case routing_solve ort w self (grid_search_parameters ort) of
             (w, self, solution) \<Rightarrow>
               if solution \<noteq> None then
                 Inr (w, self, Some (i * 60,
                   ''Solution can be found with '' @ str_int i @ '' minutes more of extra time''))
               else extra_time_loop ort rest w self))"

fun extra_vehicle_loop ::
  "'s ortools \<Rightarrow> int list \<Rightarrow> world \<Rightarrow> RouteOptimizer \<Rightarrow>
   error + (world \<times> RouteOptimizer \<times> (Fleet \<times> string) option)" where
  "extra_vehicle_loop ort [] w self = Inr (w, self, None)"
| "extra_vehicle_loop ort (i # rest) w self =
     (case rebuild_model w self i 0 of
        Inl e \<Rightarrow> Inl e
      | Inr (w, self) \<Rightarrow>
          (case routing_solve ort w self (grid_search_parameters ort) of
             (w, self, solution) \<Rightarrow>
               if solution \<noteq> None then
                 (case py_max (expand_fleet (fleet self)) of
                    Inl e \<Rightarrow> Inl e
                  | Inr max_capacity \<Rightarrow>
                      Inr (w, self, Some (\<lparr>number_of_vehicles = i, capacity = max_capacity\<rparr>,
                        ''Solution can be found with '' @ str_int i @ '' vehicle/s more '' @
                        [CHR 0x0A])))
               else extra_vehicle_loop ort rest w self))"

text \<open>\<open>sep.join(xs)\<close>.\<close>

fun join :: "string \<Rightarrow> string list \<Rightarrow> string" where
  "join sep [] = []"
| "join sep [x] = x"
| "join sep (x # y # ys) = x @ sep @ join sep (y # ys)"

definition grid_search_solver ::
  "'s ortools \<Rightarrow> world \<Rightarrow> RouteOptimizer \<Rightarrow> int \<Rightarrow> int \<Rightarrow>
   error + (world \<times> RouteOptimizer \<times> GridSearchOutput)" where
  "grid_search_solver ort w self iter_max_extra_time iter_max_extra_vehicle =
     (let message = [];
          extra_time = 0;
          extra_vehicles = \<lparr>number_of_vehicles = 0, capacity = 0\<rparr>
      in case extra_time_loop ort [1..iter_max_extra_time] w self of
           Inl e \<Rightarrow> Inl e
         | Inr (w, self, found_time) \<Rightarrow>
             let (extra_time, message) =
                   (case found_time of None \<Rightarrow> (extra_time, message)
                    | Some (t, msg) \<Rightarrow> (t, message @ [msg]))
             in case extra_vehicle_loop ort [1..iter_max_extra_vehicle] w self of
                  Inl e \<Rightarrow> Inl e
                | Inr (w, self, found_vehicles) \<Rightarrow>
                    let (extra_vehicles, message) =
                          (case found_vehicles of None \<Rightarrow> (extra_vehicles, message)
                           | Some (f, msg) \<Rightarrow> (f, message @ [msg]));
                        message =
                          (if length message = 0 then
                             message @ [''No solution found with extra vehicles or extra time.'']
                           else message)
                    in case rebuild_model w self 0 0 of
                         Inl e \<Rightarrow> Inl e
                       | Inr (w, self) \<Rightarrow>
                           Inr (w, self, \<lparr>gs_extra_time = extra_time,
                                          gs_extra_vehicles = extra_vehicles,
                                          gs_message = join '' or '' message\<rparr>))"

definition grid_search ::
  "'s ortools \<Rightarrow> world \<Rightarrow> RouteOptimizer \<Rightarrow> error + (world \<times> RouteOptimizer \<times> GridSearchOutput)" where
  "grid_search ort w self =
     (case routing_solve ort w self (grid_search_parameters ort) of
        (w, self, solution) \<Rightarrow>
          if solution \<noteq> None then
            Inr (w, self, \<lparr>gs_extra_time = 0,
                           gs_extra_vehicles = \<lparr>number_of_vehicles = 0, capacity = 0\<rparr>,
                           gs_message = ''Solution found without grid search''\<rparr>)
          else grid_search_solver ort w self 3 3)"

subsection \<open>The route optimizer: solution extraction\<close>

text \<open>
  The \<open>while\<close> loop of \<open>_extract_output\<close> for one vehicle. It follows the solution's
  \<open>NextVar\<close> links until \<open>IsEnd\<close>, which a solution need not reach, so the loop is a
  partial function.
\<close>

partial_function (option) walk ::
  "'s ortools \<Rightarrow> world \<Rightarrow> RouteOptimizer \<Rightarrow> 's \<Rightarrow> nat \<Rightarrow> int \<Rightarrow> RouteStop list \<Rightarrow> int \<Rightarrow> int \<Rightarrow>
   (error + (RouteStop list \<times> int \<times> int)) option" where
  "walk ort w self solution vehicle_id index stops route_time route_load =
     (if IsEnd ort (routing self) index then Some (Inr (stops, route_time, route_load))
      else
        let node_index = IndexToNode ort (manager self) index;
            arrival_time = Min_CumulVar_Time ort solution index
        in if length (d_demands (data self)) \<le> node_index then Some (Inl IndexError)
           else
             let route_load = route_load + d_demands (data self) ! node_index;
                 previous_index = index;
                 index = Value_NextVar ort solution index;
                 route_time = route_time +
                   GetArcCostForVehicle ort (store w ! d_time_matrix (r_data (routing self)))
                     (routing self) previous_index index vehicle_id;
                 route_stop = \<lparr>stop_id = node_index,
                               stop_demand = d_demands (data self) ! node_index,
                               vehicle_occupancy = None,
                               travel_time = arrival_time\<rparr>
             in walk ort w self solution vehicle_id index (stops @ [route_stop])
                  route_time route_load)"

declare walk.simps [code]

text \<open>The body of the loop over the vehicles, and the loop.\<close>

definition extract_route ::
  "'s ortools \<Rightarrow> world \<Rightarrow> RouteOptimizer \<Rightarrow> 's \<Rightarrow> nat \<Rightarrow> (error + Route) option" where
  "extract_route ort w self solution vehicle_id =
     (case walk ort w self solution vehicle_id (Start ort (routing self) vehicle_id) [] 0 0 of
        None \<Rightarrow> None
      | Some (Inl e) \<Rightarrow> Some (Inl e)
      | Some (Inr (stops, route_time, route_load)) \<Rightarrow>
          let route_time =
                (if route_time > 0 then route_time - vehicle_penalty self else route_time);
              stops =
                (if mode self = INBOUND then
                   let depot_stop = \<lparr>stop_id = 0, stop_demand = 0,
                                     vehicle_occupancy = Some route_load,
                                     travel_time = route_time\<rparr>
                   in drop 1 stops @ [depot_stop]
                 else stops)
          in if length (d_vehicle_capacities (data self)) \<le> vehicle_id then Some (Inl IndexError)
             else Some (Inr \<lparr>vehicle_capacity = d_vehicle_capacities (data self) ! vehicle_id,
                             vehicle_travel_occupancy = route_load,
                             vehicle_travel_time = route_time,
                             route_stops = stops\<rparr>))"

fun extract_routes ::
  "'s ortools \<Rightarrow> world \<Rightarrow> RouteOptimizer \<Rightarrow> 's \<Rightarrow> nat list \<Rightarrow> (error + Route list) option" where
  "extract_routes ort w self solution [] = Some (Inr [])"
| "extract_routes ort w self solution (vehicle_id # rest) =
     (case extract_route ort w self solution vehicle_id of
        None \<Rightarrow> None
      | Some (Inl e) \<Rightarrow> Some (Inl e)
      | Some (Inr route) \<Rightarrow>
          (case extract_routes ort w self solution rest of
             None \<Rightarrow> None
           | Some (Inl e) \<Rightarrow> Some (Inl e)
           | Some (Inr routes) \<Rightarrow> Some (Inr (route # routes))))"

definition extract_output ::
  "'s ortools \<Rightarrow> world \<Rightarrow> RouteOptimizer \<Rightarrow> 's \<Rightarrow> (error + RouteOptimizerOutput) option" where
  "extract_output ort w self solution =
     (case extract_routes ort w self solution [0..<d_num_vehicles (data self)] of
        None \<Rightarrow> None
      | Some (Inl e) \<Rightarrow> Some (Inl e)
      | Some (Inr routes) \<Rightarrow>
          Some (Inr \<lparr>out_max_travel_time = d_max_travel_time (data self),
                     out_routes = routes,
                     out_slack_time = slack_time self\<rparr>))"

definition optimizer_solver ::
  "'s ortools \<Rightarrow> world \<Rightarrow> RouteOptimizer \<Rightarrow> bool \<Rightarrow> int \<Rightarrow>
   (world \<times> RouteOptimizer \<times> (error + RouteOptimizerOutput)) option" where
  "optimizer_solver ort w self local_search max_time =
     (let search_parameters =
            DefaultRoutingSearchParameters\<lparr>first_solution_strategy := PATH_CHEAPEST_ARC\<rparr>;
          search_parameters =
            (if local_search then
               search_parameters\<lparr>local_search_metaheuristic := GUIDED_LOCAL_SEARCH,
                                 time_limit_seconds := Some max_time\<rparr>
             else search_parameters)
      in case routing_solve ort w self search_parameters of
           (w, self, solution) \<Rightarrow>
             (case solution of
                Some sol \<Rightarrow>
                  (case extract_output ort w self sol of
                     None \<Rightarrow> None
                   | Some r \<Rightarrow> Some (w, self, r))
              | None \<Rightarrow>
                  Some (w, self, Inr \<lparr>out_max_travel_time = 0, out_routes = [],
                                        out_slack_time = 0\<rparr>)))"

section \<open>Vocabulary of the properties\<close>

subsection \<open>Rectangles\<close>

definition bisect :: "int \<Rightarrow> int \<Rightarrow> int \<Rightarrow> int \<Rightarrow> rect \<times> rect" where
  "bisect srow erow scol ecol =
     (let dimension_1 = erow - srow; dimension_2 = ecol - scol;
          max_length = max dimension_1 dimension_2;
          new_length = max_length div 2 in
      if dimension_1 = max_length then
        (\<lparr>start_row = srow, end_row = srow + new_length, start_col = scol, end_col = ecol\<rparr>,
         \<lparr>start_row = srow + new_length, end_row = erow, start_col = scol, end_col = ecol\<rparr>)
      else
        (\<lparr>start_row = srow, end_row = erow, start_col = scol, end_col = scol + new_length\<rparr>,
         \<lparr>start_row = srow, end_row = erow, start_col = scol + new_length, end_col = ecol\<rparr>))"

definition slice_rect :: "rect \<Rightarrow> int \<Rightarrow> rect list option" where
  "slice_rect r max_elements =
     slice_matrix (start_row r) (end_row r) (start_col r) (end_col r) max_elements"

definition cells :: "rect \<Rightarrow> (int \<times> int) set" where
  "cells r = {(i, j). start_row r \<le> i \<and> i < end_row r \<and> start_col r \<le> j \<and> j < end_col r}"

definition elements :: "rect \<Rightarrow> int" where
  "elements r = (end_row r - start_row r) * (end_col r - start_col r)"

fun no_overlap :: "rect list \<Rightarrow> bool" where
  "no_overlap [] = True"
| "no_overlap (r # rs) = ((\<forall>q \<in> set rs. cells r \<inter> cells q = {}) \<and> no_overlap rs)"

subsection \<open>Routing API\<close>

text \<open>A routing API that answers every request, with a route that has no leg.\<close>

definition directions_stub :: "nat request \<Rightarrow> error + (int \<times> int, int) CartographyRoute" where
  "directions_stub request = Inr \<lparr>coordinates = [], times = [], distances = []\<rparr>"

subsection \<open>Optimizer states\<close>

text \<open>
  \<open>depot_assignment\<close> is the assignment \<open>_create_data_model\<close> makes, \<open>model_data\<close> the
  dictionary it returns, and \<open>ready\<close> holds of an optimizer whose matrix is already
  adjusted and whose fleet has a vehicle: there a rebuild succeeds and changes nothing in
  the store.
\<close>

definition depot_assignment :: "RouteMode \<Rightarrow> int \<Rightarrow> matrix \<Rightarrow> error + matrix" where
  "depot_assignment md slack m =
     (if md = INBOUND then assign_row0 m (- slack) else assign_col0 m (- slack))"

definition model_data :: "'a RouteOptimizer_attrs_scheme \<Rightarrow> int \<Rightarrow> int \<Rightarrow> data_model" where
  "model_data self extra_vehicles extra_max_travel_time =
     (let vehicle_capacities =
            expand_fleet (fleet self) @
              replicate (nat extra_vehicles)
                (fold max (tl (expand_fleet (fleet self))) (hd (expand_fleet (fleet self))))
      in \<lparr>d_time_matrix = time_matrix self,
          d_demands = demands self,
          d_vehicle_capacities = vehicle_capacities,
          d_num_vehicles = length vehicle_capacities,
          d_depot = 0,
          d_max_travel_time = max_travel_time self + extra_max_travel_time\<rparr>)"

definition ready :: "world \<Rightarrow> 'a RouteOptimizer_attrs_scheme \<Rightarrow> bool" where
  "ready w self \<longleftrightarrow>
     time_matrix self < length (store w) \<and> expand_fleet (fleet self) \<noteq> [] \<and>
     depot_assignment (mode self) (slack_time self) (store w ! time_matrix self) =
       Inr (store w ! time_matrix self)"

text \<open>
  The optimizer after a rebuild, and the relation of two optimizers that differ at most in
  \<open>data\<close>, \<open>manager\<close> and \<open>routing\<close>.
\<close>

definition rebuilt :: "world \<Rightarrow> RouteOptimizer \<Rightarrow> int \<Rightarrow> int \<Rightarrow> RouteOptimizer" where
  "rebuilt w self ev et =
     self\<lparr>data := model_data self ev et,
          manager := set_manager w (model_data self ev et),
          routing := set_routing (set_manager w (model_data self ev et))
                       (model_data self ev et) (vehicle_penalty self) 120\<rparr>"

definition same_attrs :: "RouteOptimizer \<Rightarrow> RouteOptimizer \<Rightarrow> bool" where
  "same_attrs a b \<longleftrightarrow>
     mode a = mode b \<and> time_matrix a = time_matrix b \<and> fleet a = fleet b \<and>
     demands a = demands b \<and> max_travel_time a = max_travel_time b \<and>
     slack_time a = slack_time b \<and> vehicle_penalty a = vehicle_penalty b"

text \<open>The solver finds no solution for the model rebuilt with the given extras.\<close>

definition attempt_fails :: "'s ortools \<Rightarrow> world \<Rightarrow> RouteOptimizer \<Rightarrow> int \<Rightarrow> int \<Rightarrow> bool" where
  "attempt_fails ort w self ev et \<longleftrightarrow>
     SolveWithParameters ort (store w ! time_matrix self) (routing (rebuilt w self ev et))
       (grid_search_parameters ort) = None"

text \<open>
  The attributes \<open>__init__\<close> copies from the input, with \<open>tm\<close> the reference to the new
  array, and the optimizer it builds from them.
\<close>

definition attrs_of :: "RouteOptimizerInput \<Rightarrow> nat \<Rightarrow> int \<Rightarrow> RouteOptimizer_attrs" where
  "attrs_of inp tm p =
     \<lparr>mode = inp_mode inp, time_matrix = tm, fleet = inp_fleet inp,
      demands = inp_demands inp, max_travel_time = inp_max_travel_time inp,
      slack_time = inp_slack_time inp, vehicle_penalty = p\<rparr>"

definition constructed :: "world \<Rightarrow> RouteOptimizer_attrs \<Rightarrow> RouteOptimizer" where
  "constructed w at =
     RouteOptimizer_attrs.extend at
       (RouteOptimizer.fields (model_data at 0 0) (set_manager w (model_data at 0 0))
          (set_routing (set_manager w (model_data at 0 0)) (model_data at 0 0)
             (vehicle_penalty at) (slack_time at)))"

subsection \<open>An example input and two solvers\<close>

text \<open>An input with three stops and two vehicles, and a solver that finds no solution.\<close>

definition example_world :: world where
  "example_world = \<lparr>store = [[[0, 5, 7], [3, 0, 4], [6, 2, 0]]], solver_calls = 0\<rparr>"

definition example_input :: RouteOptimizerInput where
  "example_input =
     \<lparr>inp_mode = INBOUND, inp_time_matrix = 0,
      inp_fleet = [\<lparr>number_of_vehicles = 2, capacity = 50\<rparr>],
      inp_demands = [0, 10, 20], inp_max_travel_time = 100, inp_slack_time = 30\<rparr>"

definition no_solution :: "matrix \<Rightarrow> RoutingModel \<Rightarrow> search_parameters \<Rightarrow> unit option" where
  "no_solution m rm sp = None"

definition node_of_index :: "RoutingIndexManager \<Rightarrow> int \<Rightarrow> nat" where
  "node_of_index mgr i = (if 0 \<le> i \<and> i < int (m_num_nodes mgr) then nat i else m_depot mgr)"

definition start_index :: "RoutingModel \<Rightarrow> nat \<Rightarrow> int" where
  "start_index rm v = (if v = 0 then 0 else int (m_num_nodes (r_manager rm)) + 2 * int v - 2)"

definition is_end_index :: "RoutingModel \<Rightarrow> int \<Rightarrow> bool" where
  "is_end_index rm i \<longleftrightarrow>
     int (m_num_nodes (r_manager rm)) \<le> i \<and> (i - int (m_num_nodes (r_manager rm))) mod 2 = 1"

definition zero_arc_cost :: "matrix \<Rightarrow> RoutingModel \<Rightarrow> int \<Rightarrow> int \<Rightarrow> nat \<Rightarrow> int" where
  "zero_arc_cost m rm i j v = 0"

definition unit_cumul :: "unit \<Rightarrow> int \<Rightarrow> int" where
  "unit_cumul s i = 0"

definition unit_next :: "unit \<Rightarrow> int \<Rightarrow> int" where
  "unit_next s i = i + 1"

definition infeasible_ortools :: "unit ortools" where
  "infeasible_ortools =
     \<lparr>IndexToNode = node_of_index, Start = start_index, IsEnd = is_end_index,
      GetArcCostForVehicle = zero_arc_cost, SolveWithParameters = no_solution,
      Min_CumulVar_Time = unit_cumul, Value_NextVar = unit_next,
      grid_search_time_limit = 10\<rparr>"

text \<open>
  A solver that finds a solution exactly for the routing models whose transit callback adds
  120, and a solver that finds one only with the guided local search.
\<close>

definition accepts_slack_120 :: "matrix \<Rightarrow> RoutingModel \<Rightarrow> search_parameters \<Rightarrow> unit option" where
  "accepts_slack_120 m rm sp = (if r_slack_time rm = 120 then Some () else None)"

definition slack_120_ortools :: "unit ortools" where
  "slack_120_ortools =
     \<lparr>IndexToNode = node_of_index, Start = start_index, IsEnd = is_end_index,
      GetArcCostForVehicle = zero_arc_cost, SolveWithParameters = accepts_slack_120,
      Min_CumulVar_Time = unit_cumul, Value_NextVar = unit_next,
      grid_search_time_limit = 10\<rparr>"

definition needs_local_search :: "matrix \<Rightarrow> RoutingModel \<Rightarrow> search_parameters \<Rightarrow> unit option" where
  "needs_local_search m rm sp =
     (if local_search_metaheuristic sp = GUIDED_LOCAL_SEARCH then Some () else None)"

definition local_search_ortools :: "unit ortools" where
  "local_search_ortools =
     \<lparr>IndexToNode = node_of_index, Start = start_index, IsEnd = is_end_index,
      GetArcCostForVehicle = zero_arc_cost, SolveWithParameters = needs_local_search,
      Min_CumulVar_Time = unit_cumul, Value_NextVar = unit_next,
      grid_search_time_limit = 10\<rparr>"

definition example_run :: "error + (world \<times> RouteOptimizer \<times> GridSearchOutput)" where
  "example_run =
     (case init example_world example_input 10000 of
        Inl e \<Rightarrow> Inl e
      | Inr (w, self) \<Rightarrow> grid_search infeasible_ortools w self)"

subsection \<open>Escalation attempts and rebuilds\<close>

text \<open>
  The routing model of an escalation attempt, and the grid search's six attempts all
  failing.
\<close>

definition escalation_model :: "world \<Rightarrow> RouteOptimizer \<Rightarrow> int \<Rightarrow> int \<Rightarrow> RoutingModel" where
  "escalation_model w self extra_vehicles extra_max_travel_time =
     (case rebuild_model w self extra_vehicles extra_max_travel_time of
        Inl e \<Rightarrow> routing self
      | Inr (w', self') \<Rightarrow> routing self')"

definition escalation_fails :: "'s ortools \<Rightarrow> world \<Rightarrow> RouteOptimizer \<Rightarrow> bool" where
  "escalation_fails ort w self \<longleftrightarrow>
     (\<forall>i \<in> {1..3}.
        SolveWithParameters ort (store w ! time_matrix self)
          (escalation_model w self 0 (i * 60)) (grid_search_parameters ort) = None \<and>
        SolveWithParameters ort (store w ! time_matrix self)
          (escalation_model w self i 0) (grid_search_parameters ort) = None)"

text \<open>A sequence of model rebuilds, each with its extra vehicles and extra time.\<close>

fun rebuild_models ::
  "world \<Rightarrow> RouteOptimizer \<Rightarrow> (int \<times> int) list \<Rightarrow> error + (world \<times> RouteOptimizer)" where
  "rebuild_models w self [] = Inr (w, self)"
| "rebuild_models w self ((extra_vehicles, extra_max_travel_time) # rest) =
     (case rebuild_model w self extra_vehicles extra_max_travel_time of
        Inl e \<Rightarrow> Inl e
      | Inr (w', self') \<Rightarrow> rebuild_models w' self' rest)"

subsection \<open>Paths of a solution\<close>


definition depot_stop :: "int \<Rightarrow> int \<Rightarrow> RouteStop" where
  "depot_stop route_load route_time =
     \<lparr>stop_id = 0, stop_demand = 0, vehicle_occupancy = Some route_load,
      travel_time = route_time\<rparr>"






definition example_optimizer :: "world \<times> RouteOptimizer" where
  "example_optimizer = projr (init example_world example_input 10000)"

section \<open>Properties\<close>

subsection \<open>Matrix chunking\<close>

lemma slice_matrix_unfold:
  "slice_matrix srow erow scol ecol m =
     (if (erow - srow) * (ecol - scol) \<le> m then
        Some [\<lparr>start_row = srow, end_row = erow, start_col = scol, end_col = ecol\<rparr>]
      else
        do {
          a \<leftarrow> slice_rect (fst (bisect srow erow scol ecol)) m;
          b \<leftarrow> slice_rect (snd (bisect srow erow scol ecol)) m;
          Some (a @ b)
        })"
  by (subst slice_matrix.simps) (simp add: bisect_def slice_rect_def Let_def)

lemma no_overlap_append:
  "no_overlap (xs @ ys) \<longleftrightarrow>
     no_overlap xs \<and> no_overlap ys \<and> (\<forall>x \<in> set xs. \<forall>y \<in> set ys. cells x \<inter> cells y = {})"
  by (induction xs) auto

lemma no_overlap_nth:
  "no_overlap rs \<Longrightarrow> i < j \<Longrightarrow> j < length rs \<Longrightarrow> cells (rs ! i) \<inter> cells (rs ! j) = {}"
proof (induction rs arbitrary: i j)
  case Nil
  then show ?case by simp
next
  case (Cons r rs)
  show ?case
  proof (cases i)
    case 0
    with Cons.prems obtain j' where j': "j = Suc j'" "j' < length rs"
      by (cases j) auto
    with Cons.prems 0 show ?thesis by auto
  next
    case (Suc i')
    with Cons.prems obtain j' where j': "j = Suc j'" "j' < length rs" "i' < j'"
      by (cases j) auto
    with Cons Suc show ?thesis by auto
  qed
qed

lemma bisect_halves:
  assumes "0 \<le> erow - srow" "0 \<le> ecol - scol" "1 \<le> m" "m < (erow - srow) * (ecol - scol)"
  defines "a \<equiv> fst (bisect srow erow scol ecol)" and "b \<equiv> snd (bisect srow erow scol ecol)"
  shows "start_row a < end_row a" "start_col a < end_col a"
    "start_row b < end_row b" "start_col b < end_col b"
    "cells a \<union> cells b = cells \<lparr>start_row = srow, end_row = erow, start_col = scol, end_col = ecol\<rparr>"
    "cells a \<inter> cells b = {}"
    "(end_row a - start_row a) + (end_col a - start_col a) < (erow - srow) + (ecol - scol)"
    "(end_row b - start_row b) + (end_col b - start_col b) < (erow - srow) + (ecol - scol)"
    "elements a < (erow - srow) * (ecol - scol)"
    "elements b < (erow - srow) * (ecol - scol)"
proof -
  define d1 where "d1 = erow - srow"
  define d2 where "d2 = ecol - scol"
  have pos: "1 \<le> d1" "1 \<le> d2"
    using assms(1-4) unfolding d1_def d2_def
    by (smt (verit) mult_nonneg_nonpos mult_zero_left mult_zero_right zero_less_mult_iff)+
  have "2 \<le> max d1 d2"
  proof (rule ccontr)
    assume "\<not> 2 \<le> max d1 d2"
    with pos have "d1 = 1" "d2 = 1" by auto
    with assms(3,4) show False unfolding d1_def d2_def by simp
  qed
  then have k: "1 \<le> max d1 d2 div 2" "max d1 d2 div 2 < max d1 d2" by auto
  show "start_row a < end_row a" "start_col a < end_col a"
    "start_row b < end_row b" "start_col b < end_col b"
    using pos k unfolding a_def b_def bisect_def Let_def d1_def d2_def by auto
  show "cells a \<union> cells b = cells \<lparr>start_row = srow, end_row = erow, start_col = scol, end_col = ecol\<rparr>"
    using pos k unfolding a_def b_def bisect_def Let_def d1_def d2_def cells_def by auto
  show "cells a \<inter> cells b = {}"
    unfolding a_def b_def bisect_def Let_def cells_def by auto
  show "(end_row a - start_row a) + (end_col a - start_col a) < (erow - srow) + (ecol - scol)"
    "(end_row b - start_row b) + (end_col b - start_col b) < (erow - srow) + (ecol - scol)"
    using pos k unfolding a_def b_def bisect_def Let_def d1_def d2_def by auto
  show "elements a < (erow - srow) * (ecol - scol)"
    using pos k unfolding a_def bisect_def Let_def d1_def d2_def elements_def
    by (auto simp: mult_strict_right_mono mult_strict_left_mono)
  show "elements b < (erow - srow) * (ecol - scol)"
    using pos k unfolding b_def bisect_def Let_def d1_def d2_def elements_def
    by (auto simp: mult_strict_right_mono mult_strict_left_mono)
qed

lemma slice_matrix_tiling:
  assumes "srow \<le> erow" "scol \<le> ecol" "1 \<le> m"
  shows "\<exists>rs. slice_matrix srow erow scol ecol m = Some rs \<and>
           (\<Union>r \<in> set rs. cells r) =
             cells \<lparr>start_row = srow, end_row = erow, start_col = scol, end_col = ecol\<rparr> \<and>
           no_overlap rs \<and> (\<forall>r \<in> set rs. elements r \<le> m)"
  using assms
proof (induction "nat ((erow - srow) + (ecol - scol))" arbitrary: srow erow scol ecol
    rule: less_induct)
  case less
  let ?R = "\<lparr>start_row = srow, end_row = erow, start_col = scol, end_col = ecol\<rparr>"
  show ?case
  proof (cases "(erow - srow) * (ecol - scol) \<le> m")
    case True
    then have "slice_matrix srow erow scol ecol m = Some [?R]"
      by (subst slice_matrix_unfold) simp
    moreover have "elements ?R \<le> m"
      using True by (simp add: elements_def)
    ultimately show ?thesis by simp
  next
    case False
    define a where "a = fst (bisect srow erow scol ecol)"
    define b where "b = snd (bisect srow erow scol ecol)"
    have h: "0 \<le> erow - srow" "0 \<le> ecol - scol" "m < (erow - srow) * (ecol - scol)"
      using less.prems False by simp_all
    note bh = bisect_halves [OF h(1) h(2) less.prems(3) h(3), folded a_def b_def]
    have ma: "nat ((end_row a - start_row a) + (end_col a - start_col a))
            < nat ((erow - srow) + (ecol - scol))"
      using bh(7) bh(1) bh(2) by linarith
    have la: "start_row a \<le> end_row a" "start_col a \<le> end_col a"
      using bh(1) bh(2) by simp_all
    have "\<exists>rs. slice_rect a m = Some rs \<and> (\<Union>r \<in> set rs. cells r) = cells a \<and>
           no_overlap rs \<and> (\<forall>r \<in> set rs. elements r \<le> m)"
      using less.hyps [OF ma la less.prems(3)] unfolding slice_rect_def by (simp add: cells_def)
    then obtain xs where xs: "slice_rect a m = Some xs" "(\<Union>r \<in> set xs. cells r) = cells a"
      "no_overlap xs" "\<forall>r \<in> set xs. elements r \<le> m"
      by blast
    have mb: "nat ((end_row b - start_row b) + (end_col b - start_col b))
            < nat ((erow - srow) + (ecol - scol))"
      using bh(8) bh(3) bh(4) by linarith
    have lb: "start_row b \<le> end_row b" "start_col b \<le> end_col b"
      using bh(3) bh(4) by simp_all
    have "\<exists>rs. slice_rect b m = Some rs \<and> (\<Union>r \<in> set rs. cells r) = cells b \<and>
           no_overlap rs \<and> (\<forall>r \<in> set rs. elements r \<le> m)"
      using less.hyps [OF mb lb less.prems(3)] unfolding slice_rect_def by (simp add: cells_def)
    then obtain ys where ys: "slice_rect b m = Some ys" "(\<Union>r \<in> set ys. cells r) = cells b"
      "no_overlap ys" "\<forall>r \<in> set ys. elements r \<le> m"
      by blast
    have res: "slice_matrix srow erow scol ecol m = Some (xs @ ys)"
      using False xs(1) ys(1)
      by (subst slice_matrix_unfold) (simp add: a_def b_def)
    have cross: "\<forall>x \<in> set xs. \<forall>y \<in> set ys. cells x \<inter> cells y = {}"
    proof (intro ballI)
      fix x y assume "x \<in> set xs" "y \<in> set ys"
      then have "cells x \<subseteq> cells a" "cells y \<subseteq> cells b"
        using xs(2) ys(2) by auto
      with bh(6) show "cells x \<inter> cells y = {}" by blast
    qed
    have "(\<Union>r \<in> set (xs @ ys). cells r) = cells a \<union> cells b"
      using xs(2) ys(2) by (simp add: UN_Un)
    then have cover: "(\<Union>r \<in> set (xs @ ys). cells r) = cells ?R"
      using bh(5) by simp
    have "no_overlap (xs @ ys)"
      using xs(3) ys(3) cross by (simp add: no_overlap_append)
    moreover have "\<forall>r \<in> set (xs @ ys). elements r \<le> m"
      using xs(4) ys(4) by auto
    ultimately show ?thesis
      using res cover by blast
  qed
qed

lemma slice_matrix_loops:
  assumes "slice_matrix srow erow scol ecol m = Some rs"
  shows "\<not> (srow = 0 \<and> erow = 1 \<and> scol = 0 \<and> ecol = 1 \<and> m = 0)"
proof (rule slice_matrix.raw_induct
    [where P = "\<lambda>a b c d e y. \<not> (a = 0 \<and> b = 1 \<and> c = 0 \<and> d = 1 \<and> e = 0)", OF _ assms])
  fix S :: "int \<Rightarrow> int \<Rightarrow> int \<Rightarrow> int \<Rightarrow> int \<Rightarrow> rect list option"
  fix a b c d e :: int and y :: "rect list"
  assume IH: "\<And>a b c d e y. S a b c d e = Some y \<Longrightarrow>
                \<not> (a = 0 \<and> b = 1 \<and> c = 0 \<and> d = 1 \<and> e = 0)"
  assume body: "(let dimension_1 = b - a; dimension_2 = d - c
      in if dimension_1 * dimension_2 \<le> e
         then Some [\<lparr>start_row = a, end_row = b, start_col = c, end_col = d\<rparr>]
         else let max_length = max dimension_1 dimension_2;
                  new_length = max_length div 2
              in if dimension_1 = max_length
                 then S a (a + new_length) c d e \<bind>
                      (\<lambda>top. S (a + new_length) b c d e \<bind> (\<lambda>down. Some (top @ down)))
                 else S a b c (c + new_length) e \<bind>
                      (\<lambda>left. S a b (c + new_length) d e \<bind> (\<lambda>right. Some (left @ right)))) =
     Some y"
  show "\<not> (a = 0 \<and> b = 1 \<and> c = 0 \<and> d = 1 \<and> e = 0)"
  proof
    assume eq: "a = 0 \<and> b = 1 \<and> c = 0 \<and> d = 1 \<and> e = 0"
    with body obtain down where "S 0 1 0 1 0 = Some down"
      by (auto simp: Let_def split: bind_splits)
    from IH [OF this] show False by simp
  qed
qed

lemma slice_matrix_zero_cap: "slice_matrix 0 1 0 1 0 = None"
  using slice_matrix_loops [of 0 1 0 1 0] by (cases "slice_matrix 0 1 0 1 0") auto

lemma slice_matrix_reversed_loops:
  assumes "slice_matrix srow erow scol ecol m = Some rs"
  shows "\<not> (erow - srow = - 2 \<and> ecol - scol = - 1 \<and> m = 1)"
proof (rule slice_matrix.raw_induct
    [where P = "\<lambda>a b c d e y. \<not> (b - a = - 2 \<and> d - c = - 1 \<and> e = 1)", OF _ assms])
  fix S :: "int \<Rightarrow> int \<Rightarrow> int \<Rightarrow> int \<Rightarrow> int \<Rightarrow> rect list option"
  fix a b c d e :: int and y :: "rect list"
  assume IH: "\<And>a b c d e y. S a b c d e = Some y \<Longrightarrow>
                \<not> (b - a = - 2 \<and> d - c = - 1 \<and> e = 1)"
  assume body: "(let dimension_1 = b - a; dimension_2 = d - c
      in if dimension_1 * dimension_2 \<le> e
         then Some [\<lparr>start_row = a, end_row = b, start_col = c, end_col = d\<rparr>]
         else let max_length = max dimension_1 dimension_2;
                  new_length = max_length div 2
              in if dimension_1 = max_length
                 then S a (a + new_length) c d e \<bind>
                      (\<lambda>top. S (a + new_length) b c d e \<bind> (\<lambda>down. Some (top @ down)))
                 else S a b c (c + new_length) e \<bind>
                      (\<lambda>left. S a b (c + new_length) d e \<bind> (\<lambda>right. Some (left @ right)))) =
     Some y"
  show "\<not> (b - a = - 2 \<and> d - c = - 1 \<and> e = 1)"
  proof
    assume eq: "b - a = - 2 \<and> d - c = - 1 \<and> e = 1"
    with body obtain left where "S a b c (c + - 1) e = Some left"
      by (auto simp: Let_def split: bind_splits)
    from IH [OF this] eq show False by simp
  qed
qed

lemma slice_matrix_reversed: "slice_matrix 0 (- 2) 0 (- 1) 1 = None"
  using slice_matrix_reversed_loops [of 0 "- 2" 0 "- 1" 1] by (cases "slice_matrix 0 (- 2) 0 (- 1) 1") auto

text \<open>
  Claim C2. For every rectangle of index ranges (\<open>start_row \<le> end_row\<close>,
  \<open>start_col \<le> end_col\<close>) and every \<open>max_elements \<ge> 1\<close>, \<open>slice_matrix\<close> returns a list
  of rectangles whose cells cover exactly the cells of the input rectangle, that are
  pairwise disjoint, and that each hold at most \<open>max_elements\<close> elements. The result is a
  function of the inputs, and \<open>slice_matrix(0, 3, 0, 3, 8)\<close> is the two rectangles of rows
  \<open>[0, 1)\<close> and \<open>[1, 3)\<close> over all three columns.
\<close>

theorem slice_matrix_tiles_rectangle:
  assumes "srow \<le> erow" and "scol \<le> ecol" and "1 \<le> max_elements"
  shows "\<exists>rs. slice_matrix srow erow scol ecol max_elements = Some rs \<and>
           (\<Union>r \<in> set rs. cells r) =
             cells \<lparr>start_row = srow, end_row = erow, start_col = scol, end_col = ecol\<rparr> \<and>
           (\<forall>i < length rs. \<forall>j < length rs. i \<noteq> j \<longrightarrow> cells (rs ! i) \<inter> cells (rs ! j) = {}) \<and>
           (\<forall>r \<in> set rs. elements r \<le> max_elements) \<and>
           slice_matrix 0 3 0 3 8 =
             Some [\<lparr>start_row = 0, end_row = 1, start_col = 0, end_col = 3\<rparr>,
                   \<lparr>start_row = 1, end_row = 3, start_col = 0, end_col = 3\<rparr>]"
proof -
  from slice_matrix_tiling [OF assms]
  obtain rs where rs: "slice_matrix srow erow scol ecol max_elements = Some rs"
    "(\<Union>r \<in> set rs. cells r) =
       cells \<lparr>start_row = srow, end_row = erow, start_col = scol, end_col = ecol\<rparr>"
    "no_overlap rs" "\<forall>r \<in> set rs. elements r \<le> max_elements"
    by blast
  have disj: "cells (rs ! i) \<inter> cells (rs ! j) = {}"
    if "i < length rs" "j < length rs" "i \<noteq> j" for i j
  proof (cases "i < j")
    case True
    then show ?thesis using no_overlap_nth [OF rs(3)] that by simp
  next
    case False
    with that have "j < i" by simp
    then have "cells (rs ! j) \<inter> cells (rs ! i) = {}"
      using no_overlap_nth [OF rs(3)] that by simp
    then show ?thesis by blast
  qed
  have ex: "slice_matrix 0 3 0 3 8 =
      Some [\<lparr>start_row = 0, end_row = 1, start_col = 0, end_col = 3\<rparr>,
            \<lparr>start_row = 1, end_row = 3, start_col = 0, end_col = 3\<rparr>]"
    by (simp add: slice_matrix.simps)
  show ?thesis
    using rs(1,2,4) disj ex by blast
qed

theorem slice_matrix_tiles_rectangle_witness:
  "(0::int) \<le> 10 \<and> (1::int) \<le> 7 \<and>
   (\<exists>rs. slice_matrix 0 10 0 10 7 = Some rs \<and>
      (\<Union>r \<in> set rs. cells r) =
        cells \<lparr>start_row = 0, end_row = 10, start_col = 0, end_col = 10\<rparr> \<and>
      list_all (\<lambda>r. elements r \<le> 7) rs)"
proof -
  have h: "(0::int) \<le> 10" "(1::int) \<le> 7" by simp_all
  from slice_matrix_tiles_rectangle [OF h(1) h(1) h(2)]
  show ?thesis by (auto simp: list_all_iff)
qed

text \<open>
  Claim C10. For every rectangle with non-negative side lengths and every
  \<open>max_elements \<ge> 1\<close>, \<open>slice_matrix\<close> returns. When the rectangle is too large, the two
  recursive calls are on the rectangles of \<open>bisect\<close>, which have positive side lengths and
  strictly fewer elements than the rectangle itself. For \<open>max_elements = 0\<close> the call on
  the 1-by-1 rectangle never returns.
\<close>

theorem slice_matrix_terminates:
  "(0 \<le> erow - srow \<and> 0 \<le> ecol - scol \<and> 1 \<le> max_elements \<longrightarrow>
      (\<exists>rs. slice_matrix srow erow scol ecol max_elements = Some rs) \<and>
      (max_elements < (erow - srow) * (ecol - scol) \<longrightarrow>
         (let a = fst (bisect srow erow scol ecol); b = snd (bisect srow erow scol ecol) in
            slice_matrix srow erow scol ecol max_elements =
              do { x \<leftarrow> slice_rect a max_elements; y \<leftarrow> slice_rect b max_elements; Some (x @ y) } \<and>
            start_row a < end_row a \<and> start_col a < end_col a \<and>
            start_row b < end_row b \<and> start_col b < end_col b \<and>
            elements a < (erow - srow) * (ecol - scol) \<and>
            elements b < (erow - srow) * (ecol - scol)))) \<and>
   slice_matrix 0 1 0 1 0 = None"
proof (intro conjI impI)
  assume h: "0 \<le> erow - srow \<and> 0 \<le> ecol - scol \<and> 1 \<le> max_elements"
  then have "srow \<le> erow" "scol \<le> ecol" "1 \<le> max_elements" by simp_all
  from slice_matrix_tiling [OF this]
  show "\<exists>rs. slice_matrix srow erow scol ecol max_elements = Some rs" by blast
next
  assume h: "0 \<le> erow - srow \<and> 0 \<le> ecol - scol \<and> 1 \<le> max_elements"
    and big: "max_elements < (erow - srow) * (ecol - scol)"
  from h have h': "0 \<le> erow - srow" "0 \<le> ecol - scol" "1 \<le> max_elements" by simp_all
  note bh = bisect_halves [OF h' big]
  have "slice_matrix srow erow scol ecol max_elements =
      do { x \<leftarrow> slice_rect (fst (bisect srow erow scol ecol)) max_elements;
           y \<leftarrow> slice_rect (snd (bisect srow erow scol ecol)) max_elements;
           Some (x @ y) }"
    using big by (subst slice_matrix_unfold) simp
  with bh(1-4) bh(9,10)
  show "let a = fst (bisect srow erow scol ecol); b = snd (bisect srow erow scol ecol) in
      slice_matrix srow erow scol ecol max_elements =
        do { x \<leftarrow> slice_rect a max_elements; y \<leftarrow> slice_rect b max_elements; Some (x @ y) } \<and>
      start_row a < end_row a \<and> start_col a < end_col a \<and>
      start_row b < end_row b \<and> start_col b < end_col b \<and>
      elements a < (erow - srow) * (ecol - scol) \<and>
      elements b < (erow - srow) * (ecol - scol)"
    by (simp add: Let_def)
next
  show "slice_matrix 0 1 0 1 0 = None" by (rule slice_matrix_zero_cap)
qed

theorem slice_matrix_terminates_witness:
  "(0::int) \<le> 3 - 0 \<and> (1::int) \<le> 8 \<and> (8::int) < (3 - 0) * (3 - 0) \<and>
   (\<exists>rs. slice_matrix 0 3 0 3 8 = Some rs) \<and>
   bisect 0 3 0 3 =
     (\<lparr>start_row = 0, end_row = 1, start_col = 0, end_col = 3\<rparr>,
      \<lparr>start_row = 1, end_row = 3, start_col = 0, end_col = 3\<rparr>) \<and>
   elements (fst (bisect 0 3 0 3)) < 9 \<and> elements (snd (bisect 0 3 0 3)) < 9"
proof -
  have h: "(0::int) \<le> 3 - 0 \<and> (0::int) \<le> 3 - 0 \<and> (1::int) \<le> 8" by simp
  with slice_matrix_terminates [where srow = 0 and erow = 3 and scol = 0 and ecol = 3
      and max_elements = 8]
  have "\<exists>rs. slice_matrix 0 3 0 3 8 = Some rs" by blast
  moreover have "bisect 0 3 0 3 =
     (\<lparr>start_row = 0, end_row = 1, start_col = 0, end_col = 3\<rparr>,
      \<lparr>start_row = 1, end_row = 3, start_col = 0, end_col = 3\<rparr>)"
    by (simp add: bisect_def Let_def)
  ultimately show ?thesis by (simp add: elements_def)
qed

subsection \<open>Route chunking\<close>

lemma length_py_slice:
  "0 \<le> i \<Longrightarrow> i \<le> j \<Longrightarrow> j \<le> int (length xs) \<Longrightarrow> length (py_slice xs i j) = nat (j - i)"
  by (auto simp: py_slice_def Let_def min_def)

lemma prepare_request_route_accepts:
  assumes "2 \<le> length xs" "int (length xs) \<le> M"
  shows "\<exists>r. prepare_request_route M xs c = Inr r"
  using assms by (simp add: prepare_request_route_def prepare_stops_def Let_def)

lemma prepare_request_route_rejects:
  assumes "3 \<le> length xs" "M < int (length xs)"
  shows "\<exists>e. prepare_request_route M xs c = Inl e"
  using assms by (simp add: prepare_request_route_def prepare_stops_def Let_def)

lemma get_route_loop_second_window:
  assumes "2 \<le> M" "2 * M \<le> int (length stops)"
  shows "\<exists>e. get_route_loop M directions stops c (M - 1) (min (M + M) (int (length stops)))
           sent routes = Some (sent, Inl e)"
proof -
  have e: "min (M + M) (int (length stops)) = 2 * M" using assms by simp
  have "length (py_slice stops (M - 1) (2 * M)) = nat (M + 1)"
    using assms by (subst length_py_slice) auto
  then have "3 \<le> length (py_slice stops (M - 1) (2 * M))"
    "M < int (length (py_slice stops (M - 1) (2 * M)))"
    using assms by simp_all
  from prepare_request_route_rejects [OF this]
  obtain e where "prepare_request_route M (py_slice stops (M - 1) (2 * M)) c = Inl e" by blast
  then show ?thesis
    using assms unfolding e by (subst get_route_loop.simps) simp
qed

lemma get_route_long_list_fails:
  assumes "2 \<le> M" "2 * M \<le> int (length stops)"
  shows "\<exists>sent e. get_route M directions stops costing = Some (sent, Inl e)"
proof -
  define c where "c = (case costing of None \<Rightarrow> ''driving'' | Some c \<Rightarrow> c)"
  have m: "min (int (length stops)) M = M" using assms by simp
  have "length (py_slice stops 0 M) = nat M"
    using assms by (subst length_py_slice) auto
  then have "2 \<le> length (py_slice stops 0 M)" "int (length (py_slice stops 0 M)) \<le> M"
    using assms by simp_all
  from prepare_request_route_accepts [OF this]
  obtain r where r: "prepare_request_route M (py_slice stops 0 M) c = Inr r" by blast
  have "\<exists>sent e. get_route_loop M directions stops c 0 M [] [] = Some (sent, Inl e)"
  proof (cases "directions r")
    case (Inl e)
    then show ?thesis
      using assms r by (subst get_route_loop.simps) simp
  next
    case (Inr route)
    from get_route_loop_second_window [OF assms, of directions c "[] @ [r]" "[] @ [route]"]
    obtain e where "get_route_loop M directions stops c (M - 1)
        (min (M + M) (int (length stops))) ([] @ [r]) ([] @ [route]) = Some ([] @ [r], Inl e)"
      by blast
    then show ?thesis
      using assms r Inr by (subst get_route_loop.simps) simp
  qed
  then show ?thesis
    unfolding get_route_def Let_def m c_def [symmetric] by auto
qed

text \<open>
  Claim C5. The claim says that every window has at most \<open>max_route_stops\<close> stops and is
  submitted without an invalid-request failure. The loop advances \<open>end_idx\<close> by
  \<open>max_route_stops\<close> while the next window starts at \<open>end_idx - 1\<close>: with the default
  \<open>max_route_stops = 27\<close> and 54 stops the second window is \<open>stops[26:54]\<close>, 28 stops, and
  \<open>_prepare_request_route\<close> raises \<open>InvalidRequestFormat\<close> after the first window was sent.
  (By \<open>get_route_long_list_fails\<close> this happens for every list of at least
  \<open>2 * max_route_stops\<close> stops.)
\<close>

theorem get_route_second_window_rejected:
  "get_route 27 directions_stub [0..<54] None =
     Some ([\<lparr>origin = 0, destination = 26, waypoints = Some [1..<26],
             travel_mode = ''driving''\<rparr>],
           Inl (InvalidRequestFormat ''Maximum number of stops is 27''))"
  by code_simp

text \<open>
  Claim C9. The claim says that a request for a route with fewer than two stops fails with
  an invalid-request error. For no stop and for one stop the loop of \<open>get_route\<close> is not
  entered (\<open>start_idx < len(stops) - 1\<close> is false), so \<open>_prepare_request_route\<close> and its
  check are never reached: no request is sent and the empty route is returned, with no
  error.
\<close>

theorem get_route_fewer_than_two_stops:
  "get_route max_route_stops directions [] costing =
     Some ([], Inr \<lparr>coordinates = [], times = [], distances = []\<rparr>) \<and>
   get_route max_route_stops directions [s] costing =
     Some ([], Inr \<lparr>coordinates = [], times = [], distances = []\<rparr>)"
  by (simp add: get_route_def get_route_loop.simps combine_routes_def)

subsection \<open>Model construction\<close>

lemma assign_row0_idem: "assign_row0 m v = Inr a \<Longrightarrow> assign_row0 a v = Inr a"
  by (auto simp: assign_row0_def split: list.splits if_splits)

lemma assign_col0_idem: "assign_col0 m v = Inr a \<Longrightarrow> assign_col0 a v = Inr a"
  by (cases m) (auto simp: assign_col0_def split: if_splits)

lemma depot_assignment_idem:
  "depot_assignment md s m = Inr a \<Longrightarrow> depot_assignment md s a = Inr a"
  by (auto simp: depot_assignment_def assign_row0_idem assign_col0_idem split: if_splits)

lemma py_max_nonempty: "xs \<noteq> [] \<Longrightarrow> py_max xs = Inr (fold max (tl xs) (hd xs))"
  by (cases xs) (simp_all add: py_max_def)

lemma py_max_empty: "py_max xs = Inl e \<longleftrightarrow> xs = [] \<and> e = ValueError"
  by (cases xs) (auto simp: py_max_def)

lemma create_data_model_cases:
  "create_data_model w self ev et = Inr (w', d) \<longleftrightarrow>
     (\<exists>a. depot_assignment (mode self) (slack_time self) (store w ! time_matrix self) = Inr a \<and>
          w' = w\<lparr>store := (store w)[time_matrix self := a]\<rparr>) \<and>
     expand_fleet (fleet self) \<noteq> [] \<and> d = model_data self ev et"
proof (cases "depot_assignment (mode self) (slack_time self) (store w ! time_matrix self)")
  case (Inl e)
  then show ?thesis
    by (simp add: create_data_model_def depot_assignment_def Let_def)
next
  case (Inr a)
  show ?thesis
  proof (cases "expand_fleet (fleet self) = []")
    case True
    then show ?thesis
      using Inr by (simp add: create_data_model_def depot_assignment_def Let_def py_max_def)
  next
    case False
    then show ?thesis
      using Inr
      by (auto simp: create_data_model_def depot_assignment_def Let_def py_max_nonempty
          model_data_def)
  qed
qed

lemma create_data_model_ready:
  assumes "ready w self"
  shows "create_data_model w self ev et = Inr (w, model_data self ev et)"
proof -
  have "w\<lparr>store := (store w)[time_matrix self := store w ! time_matrix self]\<rparr> = w"
    by simp
  with assms show ?thesis
    unfolding create_data_model_cases ready_def by simp
qed

lemma ready_cong:
  assumes "store w' = store w" "mode self' = mode self" "time_matrix self' = time_matrix self"
    "fleet self' = fleet self" "slack_time self' = slack_time self"
  shows "ready w' self' = ready w self"
  using assms by (simp add: ready_def)

lemma rebuild_model_ready:
  assumes "ready w self"
  shows "rebuild_model w self ev et = Inr (w, rebuilt w self ev et)"
  using create_data_model_ready [OF assms]
  by (simp add: rebuild_model_def rebuilt_def Let_def model_data_def)

lemma same_attrs_refl: "same_attrs a a"
  by (simp add: same_attrs_def)

lemma same_attrs_trans: "same_attrs a b \<Longrightarrow> same_attrs b c \<Longrightarrow> same_attrs a c"
  by (simp add: same_attrs_def)

lemma same_attrs_rebuilt: "same_attrs (rebuilt w self ev et) self"
  by (simp add: same_attrs_def rebuilt_def)

lemma same_attrs_ready:
  "same_attrs a b \<Longrightarrow> store w' = store w \<Longrightarrow> ready w' a = ready w b"
  by (rule ready_cong) (simp_all add: same_attrs_def)

lemma same_attrs_model_data: "same_attrs a b \<Longrightarrow> model_data a ev et = model_data b ev et"
  by (simp add: same_attrs_def model_data_def)

lemma routing_solve_effect:
  "routing_solve ort w self sp = (w', self', sol) \<Longrightarrow>
     store w' = store w \<and> solver_calls w' = Suc (solver_calls w) \<and> same_attrs self' self \<and>
     data self' = data self \<and> manager self' = manager self \<and>
     sol = SolveWithParameters ort (store w ! d_time_matrix (r_data (routing self)))
             (routing self) sp"
  by (auto simp: routing_solve_def same_attrs_def)

subsection \<open>Grid search\<close>

lemma rebuilt_cong:
  "same_attrs a b \<Longrightarrow> store w' = store w \<Longrightarrow>
     routing (rebuilt w' a ev et) = routing (rebuilt w b ev et)"
  by (simp add: rebuilt_def same_attrs_def model_data_def set_manager_def)

lemma attempt_fails_cong:
  "same_attrs a b \<Longrightarrow> store w' = store w \<Longrightarrow>
     attempt_fails ort w' a ev et = attempt_fails ort w b ev et"
  using rebuilt_cong [of a b w' w ev et] by (simp add: attempt_fails_def same_attrs_def)

lemma routing_solve_rebuilt:
  assumes "routing_solve ort w (rebuilt w self ev et) (grid_search_parameters ort) = (w', self', sol)"
  shows "sol = None \<longleftrightarrow> attempt_fails ort w self ev et"
  using assms by (auto simp: routing_solve_def attempt_fails_def rebuilt_def set_routing_def
      model_data_def Let_def)

lemma extra_time_loop_ready:
  assumes "ready w self"
  shows "\<exists>w' self' r. extra_time_loop ort is w self = Inr (w', self', r) \<and>
           store w' = store w \<and> same_attrs self' self \<and>
           solver_calls w' \<le> solver_calls w + length is \<and>
           solver_calls w \<le> solver_calls w' \<and>
           (is \<noteq> [] \<longrightarrow> solver_calls w < solver_calls w') \<and>
           ((\<forall>i \<in> set is. attempt_fails ort w self 0 (i * 60)) \<longrightarrow>
              r = None \<and> solver_calls w' = solver_calls w + length is)"
  using assms
proof (induction "is" arbitrary: w self)
  case Nil
  then show ?case by (simp add: same_attrs_refl)
next
  case (Cons i rest)
  let ?self1 = "rebuilt w self 0 (i * 60)"
  obtain w2 self2 sol where rs:
    "routing_solve ort w ?self1 (grid_search_parameters ort) = (w2, self2, sol)"
    by (cases "routing_solve ort w ?self1 (grid_search_parameters ort)") auto
  note eff = routing_solve_effect [OF rs]
  have sa: "same_attrs self2 self"
    using eff same_attrs_rebuilt [of w self 0 "i * 60"] by (blast intro: same_attrs_trans)
  have unf: "extra_time_loop ort (i # rest) w self =
      (if sol \<noteq> None then
         Inr (w2, self2, Some (i * 60,
           ''Solution can be found with '' @ str_int i @ '' minutes more of extra time''))
       else extra_time_loop ort rest w2 self2)"
    using rebuild_model_ready [OF Cons.prems, of 0 "i * 60"] rs by simp
  show ?case
  proof (cases "sol = None")
    case False
    have "\<not> attempt_fails ort w self 0 (i * 60)"
      using False routing_solve_rebuilt [OF rs] by simp
    with False unf eff sa show ?thesis by simp
  next
    case True
    have "ready w2 self2"
      using same_attrs_ready [OF sa, of w2 w] eff Cons.prems by simp
    from Cons.IH [OF this]
    obtain w' self' r where ih: "extra_time_loop ort rest w2 self2 = Inr (w', self', r)"
      "store w' = store w2" "same_attrs self' self2"
      "solver_calls w' \<le> solver_calls w2 + length rest"
      "solver_calls w2 \<le> solver_calls w'"
      "(\<forall>i \<in> set rest. attempt_fails ort w2 self2 0 (i * 60)) \<longrightarrow>
         r = None \<and> solver_calls w' = solver_calls w2 + length rest"
      by blast
    have cg: "attempt_fails ort w2 self2 ev et = attempt_fails ort w self ev et" for ev et
      using attempt_fails_cong [OF sa, of w2 w] eff by simp
    have "same_attrs self' self" using ih(3) sa by (rule same_attrs_trans)
    with True unf ih eff show ?thesis by (simp add: cg)
  qed
qed

lemma extra_vehicle_loop_ready:
  assumes "ready w self"
  shows "\<exists>w' self' r. extra_vehicle_loop ort is w self = Inr (w', self', r) \<and>
           store w' = store w \<and> same_attrs self' self \<and>
           solver_calls w' \<le> solver_calls w + length is \<and>
           solver_calls w \<le> solver_calls w' \<and>
           (is \<noteq> [] \<longrightarrow> solver_calls w < solver_calls w') \<and>
           ((\<forall>i \<in> set is. attempt_fails ort w self i 0) \<longrightarrow>
              r = None \<and> solver_calls w' = solver_calls w + length is)"
  using assms
proof (induction "is" arbitrary: w self)
  case Nil
  then show ?case by (simp add: same_attrs_refl)
next
  case (Cons i rest)
  let ?self1 = "rebuilt w self i 0"
  obtain w2 self2 sol where rs:
    "routing_solve ort w ?self1 (grid_search_parameters ort) = (w2, self2, sol)"
    by (cases "routing_solve ort w ?self1 (grid_search_parameters ort)") auto
  note eff = routing_solve_effect [OF rs]
  have sa: "same_attrs self2 self"
    using eff same_attrs_rebuilt [of w self i 0] by (blast intro: same_attrs_trans)
  have rdy: "ready w2 self2"
    using same_attrs_ready [OF sa, of w2 w] eff Cons.prems by simp
  then have mx: "py_max (expand_fleet (fleet self2)) =
      Inr (fold max (tl (expand_fleet (fleet self2))) (hd (expand_fleet (fleet self2))))"
    by (simp add: ready_def py_max_nonempty)
  have unf: "extra_vehicle_loop ort (i # rest) w self =
      (if sol \<noteq> None then
         Inr (w2, self2, Some (\<lparr>number_of_vehicles = i,
             capacity = fold max (tl (expand_fleet (fleet self2))) (hd (expand_fleet (fleet self2)))\<rparr>,
           ''Solution can be found with '' @ str_int i @ '' vehicle/s more '' @ [CHR 0x0A]))
       else extra_vehicle_loop ort rest w2 self2)"
    using rebuild_model_ready [OF Cons.prems, of i 0] rs mx by simp
  show ?case
  proof (cases "sol = None")
    case False
    have "\<not> attempt_fails ort w self i 0"
      using False routing_solve_rebuilt [OF rs] by simp
    with False unf eff sa show ?thesis by simp
  next
    case True
    from Cons.IH [OF rdy]
    obtain w' self' r where ih: "extra_vehicle_loop ort rest w2 self2 = Inr (w', self', r)"
      "store w' = store w2" "same_attrs self' self2"
      "solver_calls w' \<le> solver_calls w2 + length rest"
      "solver_calls w2 \<le> solver_calls w'"
      "(\<forall>i \<in> set rest. attempt_fails ort w2 self2 i 0) \<longrightarrow>
         r = None \<and> solver_calls w' = solver_calls w2 + length rest"
      by blast
    have cg: "attempt_fails ort w2 self2 ev et = attempt_fails ort w self ev et" for ev et
      using attempt_fails_cong [OF sa, of w2 w] eff by simp
    have "same_attrs self' self" using ih(3) sa by (rule same_attrs_trans)
    with True unf ih eff show ?thesis by (simp add: cg)
  qed
qed

lemma grid_search_solver_ready:
  assumes "ready w self"
  shows "\<exists>w' self' out. grid_search_solver ort w self it iv = Inr (w', self', out) \<and>
           store w' = store w \<and> self' = rebuilt w' self' 0 0 \<and> same_attrs self' self \<and>
           solver_calls w' \<le> solver_calls w + nat it + nat iv \<and>
           (0 < it \<and> 0 < iv \<longrightarrow> solver_calls w + 2 \<le> solver_calls w') \<and>
           ((\<forall>i \<in> {1..it}. attempt_fails ort w self 0 (i * 60)) \<and>
            (\<forall>i \<in> {1..iv}. attempt_fails ort w self i 0) \<longrightarrow>
              solver_calls w' = solver_calls w + nat it + nat iv \<and>
              out = \<lparr>gs_extra_time = 0,
                     gs_extra_vehicles = \<lparr>number_of_vehicles = 0, capacity = 0\<rparr>,
                     gs_message = ''No solution found with extra vehicles or extra time.''\<rparr>)"
proof -
  have len_it: "length [1..it] = nat it" and len_iv: "length [1..iv] = nat iv" by simp_all
  have ne_it: "[1..it] \<noteq> [] \<longleftrightarrow> 0 < it" and ne_iv: "[1..iv] \<noteq> [] \<longleftrightarrow> 0 < iv"
    by (auto simp: upto_Nil)
  from extra_time_loop_ready [OF assms, of ort "[1..it]"]
  obtain w1 self1 r1 where t: "extra_time_loop ort [1..it] w self = Inr (w1, self1, r1)"
    "store w1 = store w" "same_attrs self1 self"
    "solver_calls w1 \<le> solver_calls w + nat it"
    "0 < it \<longrightarrow> solver_calls w < solver_calls w1"
    "(\<forall>i \<in> {1..it}. attempt_fails ort w self 0 (i * 60)) \<longrightarrow>
       r1 = None \<and> solver_calls w1 = solver_calls w + nat it"
    using len_it ne_it by auto
  have r1: "ready w1 self1"
    using same_attrs_ready [OF t(3), of w1 w] t(2) assms by simp
  from extra_vehicle_loop_ready [OF r1, of ort "[1..iv]"]
  obtain w2 self2 r2 where v: "extra_vehicle_loop ort [1..iv] w1 self1 = Inr (w2, self2, r2)"
    "store w2 = store w1" "same_attrs self2 self1"
    "solver_calls w2 \<le> solver_calls w1 + nat iv"
    "0 < iv \<longrightarrow> solver_calls w1 < solver_calls w2"
    "(\<forall>i \<in> {1..iv}. attempt_fails ort w1 self1 i 0) \<longrightarrow>
       r2 = None \<and> solver_calls w2 = solver_calls w1 + nat iv"
    using len_iv ne_iv by auto
  have sa2: "same_attrs self2 self" using v(3) t(3) by (rule same_attrs_trans)
  have r2: "ready w2 self2"
    using same_attrs_ready [OF sa2, of w2 w] v(2) t(2) assms by simp
  note rb = rebuild_model_ready [OF r2, of 0 0]
  have idem: "rebuilt w2 self2 0 0 = rebuilt w2 (rebuilt w2 self2 0 0) 0 0"
    by (simp add: rebuilt_def model_data_def)
  have "\<exists>out. grid_search_solver ort w self it iv = Inr (w2, rebuilt w2 self2 0 0, out) \<and>
      (r1 = None \<and> r2 = None \<longrightarrow>
        out = \<lparr>gs_extra_time = 0,
               gs_extra_vehicles = \<lparr>number_of_vehicles = 0, capacity = 0\<rparr>,
               gs_message = ''No solution found with extra vehicles or extra time.''\<rparr>)"
  proof (cases r1)
    case None
    show ?thesis
    proof (cases r2)
      case None
      with \<open>r1 = None\<close> t(1) v(1) rb show ?thesis
        by (simp add: grid_search_solver_def)
    next
      case (Some p)
      with \<open>r1 = None\<close> t(1) v(1) rb show ?thesis
        by (cases p) (simp add: grid_search_solver_def)
    qed
  next
    case (Some q)
    show ?thesis
    proof (cases r2)
      case None
      with Some t(1) v(1) rb show ?thesis
        by (cases q) (simp add: grid_search_solver_def)
    next
      case (Some p)
      with \<open>r1 = Some q\<close> t(1) v(1) rb show ?thesis
        by (cases q, cases p) (simp add: grid_search_solver_def)
    qed
  qed
  then obtain out where out: "grid_search_solver ort w self it iv = Inr (w2, rebuilt w2 self2 0 0, out)"
    and msg: "r1 = None \<and> r2 = None \<longrightarrow>
      out = \<lparr>gs_extra_time = 0,
             gs_extra_vehicles = \<lparr>number_of_vehicles = 0, capacity = 0\<rparr>,
             gs_message = ''No solution found with extra vehicles or extra time.''\<rparr>"
    by blast
  have "same_attrs (rebuilt w2 self2 0 0) self"
    using same_attrs_rebuilt sa2 by (rule same_attrs_trans)
  moreover have "store w2 = store w" using v(2) t(2) by simp
  moreover have "solver_calls w2 \<le> solver_calls w + nat it + nat iv"
    using t(4) v(4) by simp
  moreover have "0 < it \<and> 0 < iv \<longrightarrow> solver_calls w + 2 \<le> solver_calls w2"
    using t(5) v(5) by auto
  moreover have "(\<forall>i \<in> {1..it}. attempt_fails ort w self 0 (i * 60)) \<and>
      (\<forall>i \<in> {1..iv}. attempt_fails ort w self i 0) \<longrightarrow>
      solver_calls w2 = solver_calls w + nat it + nat iv \<and>
      out = \<lparr>gs_extra_time = 0,
             gs_extra_vehicles = \<lparr>number_of_vehicles = 0, capacity = 0\<rparr>,
             gs_message = ''No solution found with extra vehicles or extra time.''\<rparr>"
  proof
    assume h: "(\<forall>i \<in> {1..it}. attempt_fails ort w self 0 (i * 60)) \<and>
      (\<forall>i \<in> {1..iv}. attempt_fails ort w self i 0)"
    then have a: "r1 = None" "solver_calls w1 = solver_calls w + nat it"
      using t(6) by simp_all
    have cg: "attempt_fails ort w1 self1 ev et = attempt_fails ort w self ev et" for ev et
      by (rule attempt_fails_cong [OF t(3) t(2)])
    have "\<forall>i \<in> {1..iv}. attempt_fails ort w1 self1 i 0"
      unfolding cg using h by blast
    then have b: "r2 = None" "solver_calls w2 = solver_calls w1 + nat iv"
      using v(6) by simp_all
    from a b msg show "solver_calls w2 = solver_calls w + nat it + nat iv \<and>
      out = \<lparr>gs_extra_time = 0,
             gs_extra_vehicles = \<lparr>number_of_vehicles = 0, capacity = 0\<rparr>,
             gs_message = ''No solution found with extra vehicles or extra time.''\<rparr>"
      by simp
  qed
  ultimately show ?thesis
    using out idem by blast
qed

lemma init_cases:
  "init w0 inp p = Inr (w, self) \<longleftrightarrow>
     (\<forall>row \<in> set (store w0 ! inp_time_matrix inp).
         length row = length (hd (store w0 ! inp_time_matrix inp))) \<and>
     (\<exists>a. depot_assignment (inp_mode inp) (inp_slack_time inp)
            (store w0 ! inp_time_matrix inp) = Inr a \<and>
          w = w0\<lparr>store := store w0 @ [a]\<rparr>) \<and>
     expand_fleet (inp_fleet inp) \<noteq> [] \<and>
     self = constructed w (attrs_of inp (length (store w0)) p)"
proof (cases "\<forall>row \<in> set (store w0 ! inp_time_matrix inp).
         length row = length (hd (store w0 ! inp_time_matrix inp))")
  case False
  then show ?thesis by (auto simp: init_def np_array_def Let_def)
next
  case True
  define M where "M = store w0 ! inp_time_matrix inp"
  define w1 where "w1 = w0\<lparr>store := store w0 @ [M]\<rparr>"
  define at where "at = attrs_of inp (length (store w0)) p"
  have np: "np_array w0 (inp_time_matrix inp) = Inr (w1, length (store w0))"
    using True by (auto simp: np_array_def Let_def w1_def M_def)
  have sel: "mode at = inp_mode inp" "slack_time at = inp_slack_time inp"
    "time_matrix at = length (store w0)" "fleet at = inp_fleet inp" "vehicle_penalty at = p"
    by (simp_all add: at_def attrs_of_def)
  have m: "store w1 ! length (store w0) = M"
    by (simp add: w1_def)
  have upd: "w1\<lparr>store := (store w1)[length (store w0) := a]\<rparr> = w0\<lparr>store := store w0 @ [a]\<rparr>" for a
    by (simp add: w1_def)
  have unf: "init w0 inp p =
      (case create_data_model w1 at 0 0 of Inl e \<Rightarrow> Inl e
       | Inr (w2, dm) \<Rightarrow> Inr (w2, constructed w2 at))"
    using create_data_model_cases [of w1 at 0 0]
    unfolding init_def np at_def attrs_of_def constructed_def Let_def
    by (auto simp: split: sum.splits)
  show ?thesis
  proof (cases "create_data_model w1 at 0 0")
    case (Inl e)
    have "\<not> ((\<exists>a. depot_assignment (inp_mode inp) (inp_slack_time inp) M = Inr a) \<and>
             expand_fleet (inp_fleet inp) \<noteq> [])"
    proof
      assume "(\<exists>a. depot_assignment (inp_mode inp) (inp_slack_time inp) M = Inr a) \<and>
             expand_fleet (inp_fleet inp) \<noteq> []"
      then obtain a where "depot_assignment (inp_mode inp) (inp_slack_time inp) M = Inr a"
        "expand_fleet (inp_fleet inp) \<noteq> []" by blast
      then have "create_data_model w1 at 0 0 =
          Inr (w1\<lparr>store := (store w1)[time_matrix at := a]\<rparr>, model_data at 0 0)"
        unfolding create_data_model_cases by (simp add: sel m)
      with Inl show False by simp
    qed
    with Inl unf show ?thesis by (auto simp: M_def)
  next
    case (Inr r)
    obtain w2 dm where r: "r = (w2, dm)" by (cases r)
    from Inr [unfolded r create_data_model_cases]
    obtain a where a: "depot_assignment (inp_mode inp) (inp_slack_time inp) M = Inr a"
      "w2 = w0\<lparr>store := store w0 @ [a]\<rparr>" "expand_fleet (inp_fleet inp) \<noteq> []"
      by (auto simp: sel m upd)
    have "init w0 inp p = Inr (w2, constructed w2 at)"
      using unf Inr r by simp
    with a True show ?thesis
      by (auto simp: M_def [symmetric] at_def)
  qed
qed

lemma constructed_sel:
  "mode (constructed w at) = mode at" "time_matrix (constructed w at) = time_matrix at"
  "fleet (constructed w at) = fleet at" "demands (constructed w at) = demands at"
  "max_travel_time (constructed w at) = max_travel_time at"
  "slack_time (constructed w at) = slack_time at"
  "vehicle_penalty (constructed w at) = vehicle_penalty at"
  "data (constructed w at) = model_data at 0 0"
  "manager (constructed w at) = set_manager w (model_data at 0 0)"
  "routing (constructed w at) =
     set_routing (set_manager w (model_data at 0 0)) (model_data at 0 0)
       (vehicle_penalty at) (slack_time at)"
  by (simp_all add: constructed_def RouteOptimizer_attrs.extend_def RouteOptimizer.fields_def)

lemma init_ready:
  assumes "init w0 inp p = Inr (w, self)"
  shows "ready w self"
proof -
  from assms [unfolded init_cases]
  obtain a where a: "depot_assignment (inp_mode inp) (inp_slack_time inp)
            (store w0 ! inp_time_matrix inp) = Inr a" "w = w0\<lparr>store := store w0 @ [a]\<rparr>"
    and rest: "expand_fleet (inp_fleet inp) \<noteq> []"
      "self = constructed w (attrs_of inp (length (store w0)) p)"
    by blast
  show ?thesis
    using a(2) rest(1) depot_assignment_idem [OF a(1)]
    by (simp add: ready_def rest(2) constructed_sel attrs_of_def)
qed

lemma example_init:
  "init example_world example_input 10000 =
     Inr (\<lparr>store = [[[0, 5, 7], [3, 0, 4], [6, 2, 0]], [[- 30, - 30, - 30], [3, 0, 4], [6, 2, 0]]],
           solver_calls = 0\<rparr>,
          constructed
            \<lparr>store = [[[0, 5, 7], [3, 0, 4], [6, 2, 0]], [[- 30, - 30, - 30], [3, 0, 4], [6, 2, 0]]],
             solver_calls = 0\<rparr>
            (attrs_of example_input 1 10000))"
  unfolding init_cases
  by (simp add: example_world_def example_input_def depot_assignment_def assign_row0_def
      fits_int64_def expand_fleet_def)

lemma escalation_fails_ready:
  assumes "ready w self" "escalation_fails ort w self"
  shows "\<forall>i \<in> {1..3}. attempt_fails ort w self 0 (i * 60)"
    and "\<forall>i \<in> {1..3}. attempt_fails ort w self i 0"
  using assms(2) rebuild_model_ready [OF assms(1)]
  by (simp_all add: escalation_fails_def escalation_model_def attempt_fails_def)

lemma init_routing_matrix:
  assumes "init w0 inp penalty = Inr (w, self)"
  shows "d_time_matrix (r_data (routing self)) = time_matrix self"
    and "data self = model_data self 0 0"
    and "manager self = set_manager w (data self)"
    and "r_data (routing self) = data self" and "r_manager (routing self) = manager self"
    and "r_solved (routing self) = False" and "r_slack_time (routing self) = slack_time self"
  using assms unfolding init_cases
  by (simp_all add: constructed_sel set_routing_def model_data_def Let_def)

lemma grid_search_escalation:
  assumes "init w0 inp penalty = Inr (w, self)"
    and "SolveWithParameters ort (store w ! time_matrix self) (routing self)
           (grid_search_parameters ort) = None"
  shows "\<exists>w' self' out. grid_search ort w self = Inr (w', self', out) \<and>
           store w' = store w \<and> same_attrs self' self \<and>
           data self' = data self \<and> manager self' = manager self \<and>
           routing self' = set_routing (manager self) (data self) (vehicle_penalty self) 120 \<and>
           solver_calls w + 3 \<le> solver_calls w' \<and> solver_calls w' \<le> solver_calls w + 7 \<and>
           (escalation_fails ort w self \<longrightarrow>
              solver_calls w' = solver_calls w + 7 \<and>
              out = \<lparr>gs_extra_time = 0,
                     gs_extra_vehicles = \<lparr>number_of_vehicles = 0, capacity = 0\<rparr>,
                     gs_message = ''No solution found with extra vehicles or extra time.''\<rparr>)"
proof -
  have rdy: "ready w self" using assms(1) by (rule init_ready)
  note ir = init_routing_matrix [OF assms(1)]
  obtain w1 self1 sol where rs:
    "routing_solve ort w self (grid_search_parameters ort) = (w1, self1, sol)"
    by (cases "routing_solve ort w self (grid_search_parameters ort)") auto
  note eff = routing_solve_effect [OF rs]
  have sol: "sol = None" using eff assms(2) ir(1) by simp
  have sa1: "same_attrs self1 self" and st1: "store w1 = store w" using eff by simp_all
  have r1: "ready w1 self1"
    using same_attrs_ready [OF sa1 st1] rdy by simp
  from grid_search_solver_ready [OF r1, of ort 3 3]
  obtain w' self' out where g0: "grid_search_solver ort w1 self1 3 3 = Inr (w', self', out)"
    "store w' = store w1" "self' = rebuilt w' self' 0 0" "same_attrs self' self1"
    "solver_calls w' \<le> solver_calls w1 + nat 3 + nat 3"
    "0 < (3::int) \<and> 0 < (3::int) \<longrightarrow> solver_calls w1 + 2 \<le> solver_calls w'"
    "(\<forall>i \<in> {1..3}. attempt_fails ort w1 self1 0 (i * 60)) \<and>
     (\<forall>i \<in> {1..3}. attempt_fails ort w1 self1 i 0) \<longrightarrow>
       solver_calls w' = solver_calls w1 + nat 3 + nat 3 \<and>
       out = \<lparr>gs_extra_time = 0,
              gs_extra_vehicles = \<lparr>number_of_vehicles = 0, capacity = 0\<rparr>,
              gs_message = ''No solution found with extra vehicles or extra time.''\<rparr>"
    by blast
  have g: "grid_search_solver ort w1 self1 3 3 = Inr (w', self', out)"
    "store w' = store w1" "self' = rebuilt w' self' 0 0" "same_attrs self' self1"
    "solver_calls w' \<le> solver_calls w1 + 6" "solver_calls w1 + 2 \<le> solver_calls w'"
    "(\<forall>i \<in> {1..3}. attempt_fails ort w1 self1 0 (i * 60)) \<and>
     (\<forall>i \<in> {1..3}. attempt_fails ort w1 self1 i 0) \<longrightarrow>
       solver_calls w' = solver_calls w1 + 6 \<and>
       out = \<lparr>gs_extra_time = 0,
              gs_extra_vehicles = \<lparr>number_of_vehicles = 0, capacity = 0\<rparr>,
              gs_message = ''No solution found with extra vehicles or extra time.''\<rparr>"
    using g0 by simp_all
  have gs: "grid_search ort w self = Inr (w', self', out)"
    using rs sol g(1) by (simp add: grid_search_def)
  have sa: "same_attrs self' self" using g(4) sa1 by (rule same_attrs_trans)
  have st: "store w' = store w" using g(2) st1 by simp
  have md: "model_data self' 0 0 = data self"
    using same_attrs_model_data [OF sa, of 0 0] ir(2) by simp
  have d: "data self' = data self"
    using arg_cong [OF g(3), of data] md by (simp add: rebuilt_def)
  have mg: "set_manager w' (data self) = manager self"
    using ir(3) st by (simp add: set_manager_def)
  have m: "manager self' = manager self"
    using arg_cong [OF g(3), of manager] md mg by (simp add: rebuilt_def)
  have vp: "vehicle_penalty self' = vehicle_penalty self"
    using sa by (simp add: same_attrs_def)
  have r: "routing self' = set_routing (manager self) (data self) (vehicle_penalty self) 120"
    using arg_cong [OF g(3), of routing] md mg vp by (simp add: rebuilt_def)
  have cg: "attempt_fails ort w1 self1 ev et = attempt_fails ort w self ev et" for ev et
    by (rule attempt_fails_cong [OF sa1 st1])
  have fin: "escalation_fails ort w self \<longrightarrow>
      solver_calls w' = solver_calls w + 7 \<and>
      out = \<lparr>gs_extra_time = 0,
             gs_extra_vehicles = \<lparr>number_of_vehicles = 0, capacity = 0\<rparr>,
             gs_message = ''No solution found with extra vehicles or extra time.''\<rparr>"
  proof
    assume "escalation_fails ort w self"
    from escalation_fails_ready [OF rdy this] g(7) [unfolded cg] eff
    show "solver_calls w' = solver_calls w + 7 \<and>
      out = \<lparr>gs_extra_time = 0,
             gs_extra_vehicles = \<lparr>number_of_vehicles = 0, capacity = 0\<rparr>,
             gs_message = ''No solution found with extra vehicles or extra time.''\<rparr>"
      by simp
  qed
  have "solver_calls w + 3 \<le> solver_calls w'" "solver_calls w' \<le> solver_calls w + 7"
    using g(5,6) eff by simp_all
  with gs st sa d m r fin show ?thesis by blast
qed

text \<open>
  Claim C3. On an optimizer built by \<open>__init__\<close>, \<open>grid_search\<close> returns a
  \<open>GridSearchOutput\<close> after at least one and at most 7 invocations of the solver. When the
  baseline attempt fails, at least one attempt with extra time and one with extra vehicles
  follow, whatever the attempts with extra time gave; when all six escalation attempts
  fail, the solver was invoked 7 times and the message is that no solution was found with
  extra vehicles or extra time.
\<close>

theorem grid_search_bounded:
  assumes "init w0 inp penalty = Inr (w, self)"
  shows "\<exists>w' self' out. grid_search ort w self = Inr (w', self', out) \<and>
           solver_calls w < solver_calls w' \<and> solver_calls w' \<le> solver_calls w + 7 \<and>
           (SolveWithParameters ort (store w ! time_matrix self) (routing self)
              (grid_search_parameters ort) = None \<longrightarrow>
              solver_calls w + 3 \<le> solver_calls w' \<and>
              (escalation_fails ort w self \<longrightarrow>
                 solver_calls w' = solver_calls w + 7 \<and>
                 gs_message out = ''No solution found with extra vehicles or extra time.''))"
proof (cases "SolveWithParameters ort (store w ! time_matrix self) (routing self)
              (grid_search_parameters ort) = None")
  case True
  from grid_search_escalation [OF assms True]
  obtain w' self' out where "grid_search ort w self = Inr (w', self', out)"
    "solver_calls w + 3 \<le> solver_calls w'" "solver_calls w' \<le> solver_calls w + 7"
    "escalation_fails ort w self \<longrightarrow>
       solver_calls w' = solver_calls w + 7 \<and>
       out = \<lparr>gs_extra_time = 0,
              gs_extra_vehicles = \<lparr>number_of_vehicles = 0, capacity = 0\<rparr>,
              gs_message = ''No solution found with extra vehicles or extra time.''\<rparr>"
    by blast
  then show ?thesis by auto
next
  case False
  note ir = init_routing_matrix [OF assms]
  have "grid_search ort w self =
      Inr (w\<lparr>solver_calls := Suc (solver_calls w)\<rparr>,
           self\<lparr>routing := (routing self)\<lparr>r_solved := True\<rparr>\<rparr>,
           \<lparr>gs_extra_time = 0,
            gs_extra_vehicles = \<lparr>number_of_vehicles = 0, capacity = 0\<rparr>,
            gs_message = ''Solution found without grid search''\<rparr>)"
    using False ir(1) by (simp add: grid_search_def routing_solve_def)
  with False show ?thesis by simp
qed

theorem grid_search_bounded_witness:
  "\<not> isl (init example_world example_input 10000) \<and>
   \<not> isl example_run \<and>
   solver_calls (fst (projr example_run)) = 7 \<and>
   gs_message (snd (snd (projr example_run))) =
     ''No solution found with extra vehicles or extra time.''"
proof -
  let ?w = "\<lparr>store = [[[0, 5, 7], [3, 0, 4], [6, 2, 0]], [[- 30, - 30, - 30], [3, 0, 4], [6, 2, 0]]],
           solver_calls = 0\<rparr>"
  let ?self = "constructed ?w (attrs_of example_input 1 10000)"
  have f: "SolveWithParameters infeasible_ortools m rm sp = None" for m rm sp
    by (simp add: infeasible_ortools_def no_solution_def)
  have ef: "escalation_fails infeasible_ortools ?w ?self"
    by (simp add: escalation_fails_def f)
  from grid_search_bounded [OF example_init, of infeasible_ortools] f ef
  obtain w' self' out where "grid_search infeasible_ortools ?w ?self = Inr (w', self', out)"
    "solver_calls w' = 7"
    "gs_message out = ''No solution found with extra vehicles or extra time.''"
    by auto
  then show ?thesis
    by (simp add: example_run_def example_init)
qed

text \<open>
  Claim C4, as amended. On the escalation path the last step rebuilds the data, the manager
  and the routing model with no extra vehicle and no extra time (the data and the manager
  are again those \<open>__init__\<close> built, and the dimensions of the routing model are those of
  the input), and the solver is not invoked on the rebuilt routing model.
\<close>

theorem grid_search_leaves_baseline_unsolved:
  assumes "init w0 inp penalty = Inr (w, self)"
    and "SolveWithParameters ort (store w ! time_matrix self) (routing self)
           (grid_search_parameters ort) = None"
  shows "\<exists>w' self' out. grid_search ort w self = Inr (w', self', out) \<and>
           store w' = store w \<and> data self' = data self \<and> manager self' = manager self \<and>
           r_data (routing self') = data self \<and> r_manager (routing self') = manager self \<and>
           r_time_dimension (routing self') = inp_max_travel_time inp \<and>
           r_capacity_dimension (routing self') = expand_fleet (inp_fleet inp) \<and>
           \<not> r_solved (routing self')"
proof -
  from grid_search_escalation [OF assms]
  obtain w' self' out where g: "grid_search ort w self = Inr (w', self', out)"
    "store w' = store w" "data self' = data self" "manager self' = manager self"
    "routing self' = set_routing (manager self) (data self) (vehicle_penalty self) 120"
    by blast
  have "max_travel_time self = inp_max_travel_time inp" "fleet self = inp_fleet inp"
    using assms(1) unfolding init_cases by (simp_all add: constructed_sel attrs_of_def)
  with init_routing_matrix(2) [OF assms(1)] have "d_max_travel_time (data self) = inp_max_travel_time inp"
    "d_vehicle_capacities (data self) = expand_fleet (inp_fleet inp)"
    by (simp_all add: model_data_def Let_def)
  with g show ?thesis by (simp add: set_routing_def)
qed

theorem grid_search_leaves_baseline_unsolved_witness:
  "\<not> isl (init example_world example_input 10000) \<and>
   \<not> isl example_run \<and>
   data (fst (snd (projr example_run))) =
     data (snd (projr (init example_world example_input 10000))) \<and>
   r_time_dimension (routing (fst (snd (projr example_run)))) = 100 \<and>
   r_capacity_dimension (routing (fst (snd (projr example_run)))) = [50, 50]"
proof -
  let ?w = "\<lparr>store = [[[0, 5, 7], [3, 0, 4], [6, 2, 0]], [[- 30, - 30, - 30], [3, 0, 4], [6, 2, 0]]],
           solver_calls = 0\<rparr>"
  let ?self = "constructed ?w (attrs_of example_input 1 10000)"
  have f: "SolveWithParameters infeasible_ortools m rm sp = None" for m rm sp
    by (simp add: infeasible_ortools_def no_solution_def)
  from grid_search_leaves_baseline_unsolved [OF example_init f]
  obtain w' self' out where "grid_search infeasible_ortools ?w ?self = Inr (w', self', out)"
    "data self' = data ?self" "r_time_dimension (routing self') = inp_max_travel_time example_input"
    "r_capacity_dimension (routing self') = expand_fleet (inp_fleet example_input)"
    by auto
  moreover have "inp_max_travel_time example_input = 100"
    "expand_fleet (inp_fleet example_input) = [50, 50]"
    by (simp_all add: example_input_def expand_fleet_def eval_nat_numeral)
  ultimately show ?thesis
    by (simp add: example_run_def example_init)
qed

text \<open>
  Claim C4 as stated fails: after a grid search in which every attempt failed, the solver
  was invoked 7 times, and the routing model left in the optimizer was never solved.
\<close>

theorem grid_search_final_model_not_solved:
  "\<not> isl example_run \<and>
   solver_calls (fst (projr example_run)) = 7 \<and>
   \<not> r_solved (routing (fst (snd (projr example_run))))"
proof -
  let ?w = "\<lparr>store = [[[0, 5, 7], [3, 0, 4], [6, 2, 0]], [[- 30, - 30, - 30], [3, 0, 4], [6, 2, 0]]],
           solver_calls = 0\<rparr>"
  let ?self = "constructed ?w (attrs_of example_input 1 10000)"
  have f: "SolveWithParameters infeasible_ortools m rm sp = None" for m rm sp
    by (simp add: infeasible_ortools_def no_solution_def)
  have ef: "escalation_fails infeasible_ortools ?w ?self"
    by (simp add: escalation_fails_def f)
  from grid_search_escalation [OF example_init f] ef
  obtain w' self' out where "grid_search infeasible_ortools ?w ?self = Inr (w', self', out)"
    "solver_calls w' = 7"
    "routing self' = set_routing (manager ?self) (data ?self) (vehicle_penalty ?self) 120"
    by auto
  then show ?thesis
    by (simp add: example_run_def example_init set_routing_def)
qed

subsection \<open>The time matrix and its owner\<close>

lemma rebuild_models_ready:
  assumes "ready w self"
  shows "\<exists>self'. rebuild_models w self es = Inr (w, self') \<and> same_attrs self' self"
  using assms
proof (induction es arbitrary: self)
  case Nil
  then show ?case by (simp add: same_attrs_refl)
next
  case (Cons e es)
  obtain ev et where e: "e = (ev, et)" by (cases e)
  have "ready w (rebuilt w self ev et)"
    using same_attrs_ready [OF same_attrs_rebuilt [of w self ev et], of w w] Cons.prems by simp
  from Cons.IH [OF this] obtain self' where
    "rebuild_models w (rebuilt w self ev et) es = Inr (w, self')"
    "same_attrs self' (rebuilt w self ev et)" by blast
  then show ?case
    using rebuild_model_ready [OF Cons.prems, of ev et] e
    by (auto intro: same_attrs_trans same_attrs_rebuilt)
qed

lemma init_store:
  assumes "init w0 inp penalty = Inr (w, self)"
  shows "\<exists>a. depot_assignment (inp_mode inp) (inp_slack_time inp)
               (store w0 ! inp_time_matrix inp) = Inr a \<and>
             store w = store w0 @ [a] \<and> solver_calls w = solver_calls w0"
    and "time_matrix self = length (store w0)"
    and "mode self = inp_mode inp" and "slack_time self = inp_slack_time inp"
  using assms unfolding init_cases
  by (auto simp: constructed_sel attrs_of_def)

text \<open>
  Claim C8, as amended. The optimizer adjusts its own array: after \<open>__init__\<close> the matrix
  of the caller is what it was, the optimizer's matrix is another object and holds the
  caller's matrix with the depot axis assigned, and any sequence of model rebuilds returns
  and leaves the store as it is (each rebuild assigns the depot axis again, to the values
  it already has).
\<close>

theorem time_matrix_copied_and_adjusted:
  assumes "init w0 inp penalty = Inr (w, self)"
    and "inp_time_matrix inp < length (store w0)"
  shows "store w ! inp_time_matrix inp = store w0 ! inp_time_matrix inp \<and>
         time_matrix self \<noteq> inp_time_matrix inp \<and>
         (if inp_mode inp = INBOUND
          then assign_row0 (store w0 ! inp_time_matrix inp) (- inp_slack_time inp)
          else assign_col0 (store w0 ! inp_time_matrix inp) (- inp_slack_time inp)) =
           Inr (store w ! time_matrix self) \<and>
         (\<forall>es. \<exists>self'. rebuild_models w self es = Inr (w, self'))"
proof -
  from init_store [OF assms(1)] obtain a where
    a: "depot_assignment (inp_mode inp) (inp_slack_time inp)
          (store w0 ! inp_time_matrix inp) = Inr a" "store w = store w0 @ [a]"
    and tm: "time_matrix self = length (store w0)"
    by blast
  have 1: "store w ! inp_time_matrix inp = store w0 ! inp_time_matrix inp"
    using a(2) assms(2) by (simp add: nth_append)
  have 2: "time_matrix self \<noteq> inp_time_matrix inp"
    using tm assms(2) by simp
  have 3: "(if inp_mode inp = INBOUND
          then assign_row0 (store w0 ! inp_time_matrix inp) (- inp_slack_time inp)
          else assign_col0 (store w0 ! inp_time_matrix inp) (- inp_slack_time inp)) =
           Inr (store w ! time_matrix self)"
    using a tm by (simp add: depot_assignment_def)
  have 4: "\<forall>es. \<exists>self'. rebuild_models w self es = Inr (w, self')"
    using rebuild_models_ready [OF init_ready [OF assms(1)]] by blast
  from 1 2 3 4 show ?thesis by blast
qed

theorem time_matrix_copied_and_adjusted_witness:
  "\<not> isl (init example_world example_input 10000) \<and>
   inp_time_matrix example_input < length (store example_world) \<and>
   store (fst (projr (init example_world example_input 10000))) !
     time_matrix (snd (projr (init example_world example_input 10000))) =
       [[- 30, - 30, - 30], [3, 0, 4], [6, 2, 0]] \<and>
   \<not> isl (rebuild_models (fst (projr (init example_world example_input 10000)))
            (snd (projr (init example_world example_input 10000))) [(0, 60), (1, 0), (0, 0)]) \<and>
   fst (projr (rebuild_models (fst (projr (init example_world example_input 10000)))
            (snd (projr (init example_world example_input 10000))) [(0, 60), (1, 0), (0, 0)])) =
     fst (projr (init example_world example_input 10000))"
proof -
  have lt: "inp_time_matrix example_input < length (store example_world)"
    by (simp add: example_input_def example_world_def)
  from time_matrix_copied_and_adjusted [OF example_init lt]
  obtain self' where "rebuild_models
      \<lparr>store = [[[0, 5, 7], [3, 0, 4], [6, 2, 0]], [[- 30, - 30, - 30], [3, 0, 4], [6, 2, 0]]],
        solver_calls = 0\<rparr>
      (constructed
        \<lparr>store = [[[0, 5, 7], [3, 0, 4], [6, 2, 0]], [[- 30, - 30, - 30], [3, 0, 4], [6, 2, 0]]],
          solver_calls = 0\<rparr>
        (attrs_of example_input 1 10000)) [(0, 60), (1, 0), (0, 0)] =
      Inr (\<lparr>store = [[[0, 5, 7], [3, 0, 4], [6, 2, 0]], [[- 30, - 30, - 30], [3, 0, 4], [6, 2, 0]]],
        solver_calls = 0\<rparr>, self')"
    by blast
  then show ?thesis
    using lt by (simp add: example_init constructed_sel attrs_of_def)
qed

text \<open>
  Claim C8 as stated fails: the adjustment is not visible through the matrix the caller
  passed in, whose row 0 is unchanged after construction.
\<close>

theorem caller_matrix_not_adjusted:
  "\<not> isl (init example_world example_input 10000) \<and>
   store (fst (projr (init example_world example_input 10000))) ! inp_time_matrix example_input =
     [[0, 5, 7], [3, 0, 4], [6, 2, 0]] \<and>
   store (fst (projr (init example_world example_input 10000))) !
     time_matrix (snd (projr (init example_world example_input 10000))) =
       [[- 30, - 30, - 30], [3, 0, 4], [6, 2, 0]]"
proof -
  have "inp_time_matrix example_input = 0"
    by (simp add: example_input_def)
  then show ?thesis
    by (simp add: example_init constructed_sel attrs_of_def)
qed

lemma assign_row0_nth:
  assumes "assign_row0 m v = Inr a"
  shows "length a = length m" and "fits_int64 v"
    and "length (a ! 0) = length (m ! 0)"
    and "j < length (m ! 0) \<Longrightarrow> a ! 0 ! j = word_of_int v"
    and "0 < i \<Longrightarrow> a ! i = m ! i"
proof -
  from assms obtain row rows where m: "m = row # rows" and f: "fits_int64 v"
    and a: "a = map (\<lambda>_. word_of_int v) row # rows"
    by (cases m) (auto simp: assign_row0_def split: if_splits)
  show "length a = length m" "fits_int64 v" "length (a ! 0) = length (m ! 0)"
    using m f a by simp_all
  show "j < length (m ! 0) \<Longrightarrow> a ! 0 ! j = word_of_int v" using m a by simp
  show "0 < i \<Longrightarrow> a ! i = m ! i" using m a by (cases i) simp_all
qed

lemma assign_col0_nth:
  assumes "assign_col0 m v = Inr a"
  shows "length a = length m" and "fits_int64 v"
    and "i < length m \<Longrightarrow> m ! i \<noteq> [] \<Longrightarrow> length (a ! i) = length (m ! i)"
    and "i < length m \<Longrightarrow> a ! i ! 0 = word_of_int v"
    and "i < length m \<Longrightarrow> 0 < j \<Longrightarrow> j < length (m ! i) \<Longrightarrow> a ! i ! j = m ! i ! j"
proof -
  from assms have a: "a = map (\<lambda>row. word_of_int v # tl row) m" and f: "fits_int64 v"
    by (auto simp: assign_col0_def split: if_splits)
  show "length a = length m" "fits_int64 v" using a f by simp_all
  show "i < length m \<Longrightarrow> m ! i \<noteq> [] \<Longrightarrow> length (a ! i) = length (m ! i)"
    using a by (cases "m ! i") simp_all
  show "i < length m \<Longrightarrow> a ! i ! 0 = word_of_int v" using a by simp
  show "i < length m \<Longrightarrow> 0 < j \<Longrightarrow> j < length (m ! i) \<Longrightarrow> a ! i ! j = m ! i ! j"
    using a by (cases j) (simp_all add: nth_tl)
qed

subsection \<open>The depot axis of the time matrix\<close>

text \<open>
  After \<open>__init__\<close> the depot axis of the optimizer's matrix is \<open>- slack_time\<close>, row 0 in
  INBOUND mode and column 0 in OUTBOUND mode, and the transit callback of the routing model
  that \<open>__init__\<close> builds, which adds \<open>self.slack_time\<close>, returns 0 on that axis.
\<close>

lemma init_depot_axis:
  assumes "init w0 inp penalty = Inr (w, self)"
  shows "length (store w ! time_matrix self) = length (store w0 ! inp_time_matrix inp)"
    and "fits_int64 (- inp_slack_time inp)"
    and "inp_mode inp = INBOUND \<Longrightarrow> j < length (store w ! time_matrix self ! 0) \<Longrightarrow>
           store w ! time_matrix self ! 0 ! j = word_of_int (- inp_slack_time inp)"
    and "inp_mode inp = INBOUND \<Longrightarrow> 0 < i \<Longrightarrow>
           store w ! time_matrix self ! i = store w0 ! inp_time_matrix inp ! i"
    and "inp_mode inp = OUTBOUND \<Longrightarrow> i < length (store w ! time_matrix self) \<Longrightarrow>
           store w ! time_matrix self ! i ! 0 = word_of_int (- inp_slack_time inp)"
    and "inp_mode inp = OUTBOUND \<Longrightarrow> i < length (store w ! time_matrix self) \<Longrightarrow> 0 < j \<Longrightarrow>
           j < length (store w0 ! inp_time_matrix inp ! i) \<Longrightarrow>
           store w ! time_matrix self ! i ! j = store w0 ! inp_time_matrix inp ! i ! j"
proof -
  let ?M = "store w0 ! inp_time_matrix inp"
  from init_store [OF assms] obtain a where
    a: "depot_assignment (inp_mode inp) (inp_slack_time inp) ?M = Inr a" "store w = store w0 @ [a]"
    and tm: "time_matrix self = length (store w0)"
    by blast
  have s: "store w ! time_matrix self = a" using a(2) tm by simp
  have r: "assign_row0 ?M (- inp_slack_time inp) = Inr a" if "inp_mode inp = INBOUND"
    using a(1) that by (simp add: depot_assignment_def)
  have c: "assign_col0 ?M (- inp_slack_time inp) = Inr a" if "inp_mode inp = OUTBOUND"
    using a(1) that by (simp add: depot_assignment_def)
  have md: "inp_mode inp = INBOUND \<or> inp_mode inp = OUTBOUND"
    by (cases "inp_mode inp") simp_all
  show "length (store w ! time_matrix self) = length ?M"
    using md assign_row0_nth(1) [OF r] assign_col0_nth(1) [OF c] s by auto
  show "fits_int64 (- inp_slack_time inp)"
    using md assign_row0_nth(2) [OF r] assign_col0_nth(2) [OF c] by auto
  show "inp_mode inp = INBOUND \<Longrightarrow> j < length (store w ! time_matrix self ! 0) \<Longrightarrow>
           store w ! time_matrix self ! 0 ! j = word_of_int (- inp_slack_time inp)"
    using assign_row0_nth(3,4) [OF r] s by simp
  show "inp_mode inp = INBOUND \<Longrightarrow> 0 < i \<Longrightarrow> store w ! time_matrix self ! i = ?M ! i"
    using assign_row0_nth(5) [OF r] s by simp
  show "inp_mode inp = OUTBOUND \<Longrightarrow> i < length (store w ! time_matrix self) \<Longrightarrow>
           store w ! time_matrix self ! i ! 0 = word_of_int (- inp_slack_time inp)"
    using assign_col0_nth(1,4) [OF c] s by simp
  show "inp_mode inp = OUTBOUND \<Longrightarrow> i < length (store w ! time_matrix self) \<Longrightarrow> 0 < j \<Longrightarrow>
           j < length (?M ! i) \<Longrightarrow> store w ! time_matrix self ! i ! j = ?M ! i ! j"
    using assign_col0_nth(1,5) [OF c] s by simp
qed

lemma init_transit_cost:
  assumes "init w0 inp penalty = Inr (w, self)" and "fits_int64 (inp_slack_time inp)"
    and "IndexToNode ort (manager self) from_index < length (store w ! time_matrix self)"
    and "IndexToNode ort (manager self) to_index <
           length (store w ! time_matrix self ! IndexToNode ort (manager self) from_index)"
    and "inp_mode inp = INBOUND \<and> IndexToNode ort (manager self) from_index = 0 \<or>
         inp_mode inp = OUTBOUND \<and> IndexToNode ort (manager self) to_index = 0"
  shows "time_callback ort w (routing self) from_index to_index = Inr 0"
proof -
  note ir = init_routing_matrix [OF assms(1)]
  note ax = init_depot_axis [OF assms(1)]
  have sl: "r_slack_time (routing self) = inp_slack_time inp"
    using ir(7) init_store(4) [OF assms(1)] by simp
  have "store w ! time_matrix self ! IndexToNode ort (manager self) from_index !
          IndexToNode ort (manager self) to_index = word_of_int (- inp_slack_time inp)"
    using assms(3,4,5) ax(3,5) by auto
  then show ?thesis
    using assms(2,3,4) by (simp add: time_callback_def Let_def ir(1,5) sl not_le)
qed

text \<open>
  The models rebuilt by \<open>_grid_search_solver\<close> register the transit callback with the
  default slack time of \<open>_set_routing\<close>: their transit cost is the matrix entry plus 120,
  whatever the slack time of the input.
\<close>

lemma rebuilt_transit_cost:
  assumes "ready w self" and "rebuild_model w self ev et = Inr (w', self')"
    and "IndexToNode ort (manager self') from_index < length (store w ! time_matrix self)"
    and "IndexToNode ort (manager self') to_index <
           length (store w ! time_matrix self ! IndexToNode ort (manager self') from_index)"
  shows "time_callback ort w' (routing self') from_index to_index =
           Inr (sint (store w ! time_matrix self ! IndexToNode ort (manager self') from_index !
                        IndexToNode ort (manager self') to_index + 120))"
  using assms(2,3,4) unfolding rebuild_model_ready [OF assms(1)]
  by (auto simp: time_callback_def rebuilt_def set_routing_def model_data_def Let_def
      fits_int64_def)

text \<open>
  Claim C1. The claim says that the transit cost fed to the solver from the depot (INBOUND)
  is exactly 0. That holds of the model \<open>__init__\<close> builds. \<open>_grid_search_solver\<close> rebuilds
  the model with \<open>_set_routing(vehicle_penalty=self.vehicle_penalty)\<close>, leaving out the
  \<open>slack_time\<close> that \<open>__init__\<close> passes, so the callback of every escalation attempt adds
  the default 120. On the example, an INBOUND input with slack time 30, row 0 of the
  matrix is -30 and the callback of the constructed model returns 0 from the depot, but the
  callback of the model rebuilt for the attempt with one more minute returns 90. A solver
  that accepts only the models whose callback adds 120 is invoked three times by
  \<open>grid_search\<close>: it finds no solution for the baseline and one for the first attempt with
  extra time and for the first with an extra vehicle. The model that \<open>grid_search\<close> leaves
  in the optimizer returns 90 from the depot as well.
\<close>

theorem escalation_depot_transit_cost:
  "\<not> isl (init example_world example_input 10000) \<and>
   inp_mode example_input = INBOUND \<and> inp_slack_time example_input = 30 \<and>
   store (fst example_optimizer) ! time_matrix (snd example_optimizer) ! 0 =
     [- 30, - 30, - 30] \<and>
   time_callback slack_120_ortools (fst example_optimizer)
     (routing (snd example_optimizer)) 0 2 = Inr 0 \<and>
   \<not> isl (rebuild_model (fst example_optimizer) (snd example_optimizer) 0 60) \<and>
   time_callback slack_120_ortools
     (fst (projr (rebuild_model (fst example_optimizer) (snd example_optimizer) 0 60)))
     (routing (snd (projr (rebuild_model (fst example_optimizer) (snd example_optimizer) 0 60))))
     0 2 = Inr 90 \<and>
   \<not> isl (grid_search slack_120_ortools (fst example_optimizer) (snd example_optimizer)) \<and>
   solver_calls (fst (projr
     (grid_search slack_120_ortools (fst example_optimizer) (snd example_optimizer)))) = 3 \<and>
   gs_extra_time (snd (snd (projr
     (grid_search slack_120_ortools (fst example_optimizer) (snd example_optimizer))))) = 60 \<and>
   time_callback slack_120_ortools
     (fst (projr (grid_search slack_120_ortools (fst example_optimizer) (snd example_optimizer))))
     (routing (fst (snd (projr
        (grid_search slack_120_ortools (fst example_optimizer) (snd example_optimizer))))))
     0 2 = Inr 90"
  by code_simp

text \<open>
  Claim C7. When the solve that \<open>optimizer_solver\<close> performs, with the search parameters it
  builds, returns no solution, \<open>optimizer_solver\<close> returns an output with no route and
  \<open>max_travel_time\<close> 0; it raises nothing.
\<close>

theorem optimizer_solver_infeasible:
  assumes "SolveWithParameters ort (store w ! d_time_matrix (r_data (routing self)))
             (routing self)
             (if local_search
              then DefaultRoutingSearchParameters
                     \<lparr>first_solution_strategy := PATH_CHEAPEST_ARC,
                      local_search_metaheuristic := GUIDED_LOCAL_SEARCH,
                      time_limit_seconds := Some max_time\<rparr>
              else DefaultRoutingSearchParameters
                     \<lparr>first_solution_strategy := PATH_CHEAPEST_ARC\<rparr>) = None"
  shows "\<exists>w' self' out.
           optimizer_solver ort w self local_search max_time = Some (w', self', Inr out) \<and>
           out_routes out = [] \<and> out_max_travel_time out = 0"
  using assms by (cases local_search) (simp_all add: optimizer_solver_def routing_solve_def Let_def)

theorem optimizer_solver_infeasible_witness:
  "SolveWithParameters local_search_ortools
     (store (fst example_optimizer) ! d_time_matrix (r_data (routing (snd example_optimizer))))
     (routing (snd example_optimizer))
     (DefaultRoutingSearchParameters\<lparr>first_solution_strategy := PATH_CHEAPEST_ARC\<rparr>) = None \<and>
   optimizer_solver local_search_ortools (fst example_optimizer) (snd example_optimizer)
     False 3600 \<noteq> None \<and>
   snd (snd (the (optimizer_solver local_search_ortools (fst example_optimizer)
     (snd example_optimizer) False 3600))) =
     Inr \<lparr>out_max_travel_time = 0, out_routes = [], out_slack_time = 0\<rparr>"
proof -
  have f: "SolveWithParameters local_search_ortools m rm
      (if False
       then DefaultRoutingSearchParameters
              \<lparr>first_solution_strategy := PATH_CHEAPEST_ARC,
               local_search_metaheuristic := GUIDED_LOCAL_SEARCH,
               time_limit_seconds := Some 3600\<rparr>
       else DefaultRoutingSearchParameters
              \<lparr>first_solution_strategy := PATH_CHEAPEST_ARC\<rparr>) = None" for m rm
    by (simp add: local_search_ortools_def needs_local_search_def
        DefaultRoutingSearchParameters_def)
  from optimizer_solver_infeasible [OF f]
  obtain w' self' out where o: "optimizer_solver local_search_ortools (fst example_optimizer)
      (snd example_optimizer) False 3600 = Some (w', self', Inr out)"
    "out_routes out = []" "out_max_travel_time out = 0"
    by blast
  have "out_slack_time out = 0"
    using o(1) f [of "store (fst example_optimizer) !
        d_time_matrix (r_data (routing (snd example_optimizer)))" "routing (snd example_optimizer)"]
    by (auto simp: optimizer_solver_def routing_solve_def Let_def)
  with o f show ?thesis by simp
qed

subsection \<open>Solution extraction\<close>









end
